theory Spec2Isabelle
  imports Complex_Main
begin

section \<open>Python values and errors\<close>

text \<open>
  The geometry module is Python. Its floats are idealised as exact reals, its
  exceptions are values of the type \<open>error\<close>, and a function that can raise
  returns \<open>error + 'a\<close> with \<open>Inl\<close> for the exception.
\<close>

datatype error =
    ValueError string
  | TypeError
  | RuntimeError string
  | AttributeError
  | KeyError
  | IndexError
  | ZeroDivisionError

text \<open>
  Python's \<open>round(x)\<close> on a float: the nearest integer, a tie going to the even
  neighbour.
\<close>

definition py_round :: "real \<Rightarrow> int" where
  "py_round x =
     (let f = \<lfloor>x\<rfloor>; d = x - of_int f
      in if d < 1 / 2 then f
         else if 1 / 2 < d then f + 1
         else if even f then f else f + 1)"

section \<open>Resolution calculator\<close>

text \<open>
  \<open>calc_best_resolution_bbox\<close> (geometry.py, lines 222 to 233). The literal
  \<open>10e-9\<close> of the source is \<open>1 / 10 ^ 8\<close>. A zero component of
  \<open>orig_resolution\<close> makes the division raise \<open>ZeroDivisionError\<close>; the
  first component is divided by first.

  The source computes in doubles and the model in exact reals, and the two part where
  a double cannot hold the sum: from \<open>2 ^ 27\<close> cells on, the spacing of the doubles is
  wider than twice the epsilon, the addition gives back the quotient unchanged, and an
  exact half goes to the even neighbour again (134217728.5 cells give 134217728 in the
  source, 134217729 here). Quotients beyond the range of the doubles, where \<open>round\<close>
  raises \<open>OverflowError\<close>, have no counterpart here either. What is proved about the
  rounding of halves is therefore stated below \<open>2 ^ 27\<close> cells only.
\<close>

definition cell_eps :: real where
  "cell_eps = 1 / 10 ^ 8"

definition cells :: "real \<Rightarrow> real \<Rightarrow> int" where
  "cells d r = max 1 (py_round (d / r + cell_eps))"

definition calc_best_resolution_bbox ::
  "real \<Rightarrow> real \<Rightarrow> real \<Rightarrow> real \<Rightarrow> real \<times> real \<Rightarrow> error + real \<times> real" where
  "calc_best_resolution_bbox x_min x_max y_min y_max orig_resolution =
     (let dx = x_max - x_min;
          dy = y_max - y_min
      in if fst orig_resolution = 0 then Inl ZeroDivisionError
         else let cells_x = cells dx (fst orig_resolution)
         in if snd orig_resolution = 0 then Inl ZeroDivisionError
         else let cells_y = cells dy (snd orig_resolution)
         in Inr (dx / of_int cells_x, dy / of_int cells_y))"

text \<open>
  Python's \<open>round(x, n)\<close> on a float: the nearest multiple of \<open>10 ^ (- n)\<close>, ties
  to even. A negative \<open>n\<close> rounds to tens, hundreds and so on.
\<close>

definition py_round_n :: "real \<Rightarrow> int \<Rightarrow> real" where
  "py_round_n x n =
     (if 0 \<le> n then of_int (py_round (x * 10 ^ nat n)) / 10 ^ nat n
      else of_int (py_round (x / 10 ^ nat (- n))) * 10 ^ nat (- n))"

text \<open>
  \<open>str.lower()\<close> on the ASCII letters; every other byte stays as it is.
\<close>

definition lower_char :: "char \<Rightarrow> char" where
  "lower_char c =
     (case map_of (zip ''ABCDEFGHIJKLMNOPQRSTUVWXYZ'' ''abcdefghijklmnopqrstuvwxyz'') c of
        None \<Rightarrow> c
      | Some l \<Rightarrow> l)"

definition lower :: "string \<Rightarrow> string" where
  "lower s = map lower_char s"

section \<open>The OGR geometry objects the module works on\<close>

text \<open>
  \<open>ogr.Geometry\<close> belongs to the GDAL bindings, not to this repository. Only the
  calls the module makes are modelled: a geometry value has a type, the points it holds
  itself (a point, a line string, a ring) and the child geometries it owns (a polygon
  its rings, a multi geometry or collection its members). A point is the list of its
  coordinates, two or three of them.
\<close>

datatype wkb =
    wkbPoint
  | wkbLineString
  | wkbLinearRing
  | wkbPolygon
  | wkbMultiPoint
  | wkbMultiLineString
  | wkbMultiPolygon
  | wkbGeometryCollection

datatype geom = Geometry (gtype: wkb) (gpoints: "real list list") (gsubs: "geom list")

text \<open>\<open>ogr.Geometry(t)\<close>: a new, empty geometry of type \<open>t\<close>.\<close>

definition new_geometry :: "wkb \<Rightarrow> geom" where
  "new_geometry t = Geometry t [] []"

fun wkb_name :: "wkb \<Rightarrow> string" where
  "wkb_name wkbPoint = ''POINT''"
| "wkb_name wkbLineString = ''LINESTRING''"
| "wkb_name wkbLinearRing = ''LINEARRING''"
| "wkb_name wkbPolygon = ''POLYGON''"
| "wkb_name wkbMultiPoint = ''MULTIPOINT''"
| "wkb_name wkbMultiLineString = ''MULTILINESTRING''"
| "wkb_name wkbMultiPolygon = ''MULTIPOLYGON''"
| "wkb_name wkbGeometryCollection = ''GEOMETRYCOLLECTION''"

definition GetGeometryName :: "geom \<Rightarrow> string" where
  "GetGeometryName g = wkb_name (gtype g)"

text \<open>
  \<open>AddPoint_2D(x, y)\<close> and \<open>AddPoint(x, y, z)\<close>: a point geometry takes the
  coordinates as its one point, a line string or ring appends the point; the other
  types hold no points of their own and stay as they are (the builder never asks them
  to). \<open>AddPoint\<close> with two arguments has \<open>z = 0\<close>, the binding's default.
\<close>

definition put_point :: "geom \<Rightarrow> real list \<Rightarrow> geom" where
  "put_point g p =
     (case gtype g of
        wkbPoint \<Rightarrow> Geometry wkbPoint [p] (gsubs g)
      | wkbLineString \<Rightarrow> Geometry wkbLineString (gpoints g @ [p]) (gsubs g)
      | wkbLinearRing \<Rightarrow> Geometry wkbLinearRing (gpoints g @ [p]) (gsubs g)
      | _ \<Rightarrow> g)"

definition AddPoint_2D :: "geom \<Rightarrow> real \<Rightarrow> real \<Rightarrow> geom" where
  "AddPoint_2D g x y = put_point g [x, y]"

definition AddPoint :: "geom \<Rightarrow> real \<Rightarrow> real \<Rightarrow> real \<Rightarrow> geom" where
  "AddPoint g x y z = put_point g [x, y, z]"

text \<open>
  \<open>AddGeometry(child)\<close> stores a copy of the child when the parent's type accepts
  it: a polygon its rings, a multi geometry the members of its kind, a collection
  everything but a bare ring. Otherwise the binding reports an error code, which the
  module never reads, and the parent stays as it is.
\<close>

fun accepts :: "wkb \<Rightarrow> wkb \<Rightarrow> bool" where
  "accepts wkbPolygon c = (c = wkbLinearRing)"
| "accepts wkbMultiPoint c = (c = wkbPoint)"
| "accepts wkbMultiLineString c = (c = wkbLineString)"
| "accepts wkbMultiPolygon c = (c = wkbPolygon)"
| "accepts wkbGeometryCollection c = (c \<noteq> wkbLinearRing)"
| "accepts _ c = False"

definition AddGeometry :: "geom \<Rightarrow> geom \<Rightarrow> geom" where
  "AddGeometry parent child =
     (if accepts (gtype parent) (gtype child)
      then Geometry (gtype parent) (gpoints parent) (gsubs parent @ [child])
      else parent)"

text \<open>
  \<open>GetPoints()\<close> is \<open>None\<close> for a geometry that holds no point, the list of the
  points otherwise.
\<close>

definition GetPoints :: "geom \<Rightarrow> real list list option" where
  "GetPoints g = (if gpoints g = [] then None else Some (gpoints g))"

text \<open>\<open>FlattenTo2D()\<close> drops every coordinate after the second, at every level.\<close>

fun FlattenTo2D :: "geom \<Rightarrow> geom" where
  "FlattenTo2D (Geometry t ps subs) = Geometry t (map (take 2) ps) (map FlattenTo2D subs)"

text \<open>
  \<open>CloseRings()\<close>: a ring of two or more points whose last point differs from its
  first gets a copy of the first appended. A polygon closes its rings, a multi geometry
  or collection closes the rings of the polygons among its members, and every other
  geometry stays as it is.
\<close>

fun close_ring :: "real list list \<Rightarrow> real list list" where
  "close_ring (p # q # rest) =
     (if p = last (q # rest) then p # q # rest else p # q # rest @ [p])"
| "close_ring ps = ps"

definition close_curve :: "geom \<Rightarrow> geom" where
  "close_curve r =
     (if gtype r = wkbLinearRing then Geometry wkbLinearRing (close_ring (gpoints r)) (gsubs r)
      else r)"

definition close_polygon :: "geom \<Rightarrow> geom" where
  "close_polygon g = Geometry (gtype g) (gpoints g) (map close_curve (gsubs g))"

definition CloseRings :: "geom \<Rightarrow> geom" where
  "CloseRings g =
     (case gtype g of
        wkbLinearRing \<Rightarrow> close_curve g
      | wkbPolygon \<Rightarrow> close_polygon g
      | wkbPoint \<Rightarrow> g
      | wkbLineString \<Rightarrow> g
      | _ \<Rightarrow> Geometry (gtype g) (gpoints g)
               (map (\<lambda>m. if gtype m = wkbPolygon then close_polygon m else m) (gsubs g)))"

text \<open>
  A ring is closed when it has fewer than two points or its last point is its first; a
  polygon has its rings closed when each of its rings is.
\<close>

definition ring_closed :: "geom \<Rightarrow> bool" where
  "ring_closed r = (case gpoints r of p # q # rest \<Rightarrow> p = last (q # rest) | _ \<Rightarrow> True)"

definition polygon_closed :: "geom \<Rightarrow> bool" where
  "polygon_closed g = list_all (\<lambda>r. gtype r \<noteq> wkbLinearRing \<or> ring_closed r) (gsubs g)"

text \<open>The polygonal geometries: polygons and multipolygons.\<close>

definition polygonal :: "geom \<Rightarrow> bool" where
  "polygonal g = (gtype g = wkbPolygon \<or> gtype g = wkbMultiPolygon)"

section \<open>GeoJSON-shaped mappings\<close>

text \<open>
  The coordinates of a mapping are nested arrays of numbers. A mapping is a
  dictionary of which the module reads three keys, each of which may be missing:
  \<open>type\<close>, \<open>coordinates\<close> and \<open>geometries\<close>. Every other key lands in
  \<open>**kwargs\<close> and is never read.
\<close>

datatype coords = Num real | Arr "coords list"

datatype geojson =
  Mapping (mtype: "string option") (coordinates: "coords option")
          (geometries: "geojson list option")

section \<open>GeometryBuilder\<close>

text \<open>
  \<open>_add_point\<close> (lines 86 to 91). With \<open>flatten\<close> the first two components
  go to \<open>AddPoint_2D\<close>, which takes exactly two numbers; without it all components
  go to \<open>AddPoint\<close>, which takes two or three. Anything else is a \<open>TypeError\<close>
  of the call.
\<close>

fun numbers :: "coords list \<Rightarrow> real list option" where
  "numbers [] = Some []"
| "numbers (Num x # cs) = (case numbers cs of None \<Rightarrow> None | Some xs \<Rightarrow> Some (x # xs))"
| "numbers (Arr _ # cs) = None"

definition add_point :: "bool \<Rightarrow> geom \<Rightarrow> coords \<Rightarrow> error + geom" where
  "add_point flatten geometry point =
     (case point of
        Num _ \<Rightarrow> Inl TypeError
      | Arr cs \<Rightarrow>
          if flatten then
            (case numbers (take 2 cs) of
               Some [x, y] \<Rightarrow> Inr (AddPoint_2D geometry x y)
             | _ \<Rightarrow> Inl TypeError)
          else
            (case numbers cs of
               Some [x, y] \<Rightarrow> Inr (AddPoint geometry x y 0)
             | Some [x, y, z] \<Rightarrow> Inr (AddPoint geometry x y z)
             | _ \<Rightarrow> Inl TypeError))"

text \<open>\<open>_add_points\<close> (lines 93 to 96): the loop stops at the first error.\<close>

fun add_points_loop :: "bool \<Rightarrow> geom \<Rightarrow> coords list \<Rightarrow> error + geom" where
  "add_points_loop flatten geometry [] = Inr geometry"
| "add_points_loop flatten geometry (point # points) =
     (case add_point flatten geometry point of
        Inl e \<Rightarrow> Inl e
      | Inr g \<Rightarrow> add_points_loop flatten g points)"

definition add_points :: "bool \<Rightarrow> geom \<Rightarrow> coords \<Rightarrow> error + geom" where
  "add_points flatten geometry points =
     (case points of
        Num _ \<Rightarrow> Inl TypeError
      | Arr ps \<Rightarrow> add_points_loop flatten geometry ps)"

definition create_linearring :: "bool \<Rightarrow> coords \<Rightarrow> error + geom" where
  "create_linearring flatten cs = add_points flatten (new_geometry wkbLinearRing) cs"

definition create_linestring :: "bool \<Rightarrow> coords \<Rightarrow> error + geom" where
  "create_linestring flatten cs = add_points flatten (new_geometry wkbLineString) cs"

definition create_point :: "bool \<Rightarrow> coords \<Rightarrow> error + geom" where
  "create_point flatten cs = add_point flatten (new_geometry wkbPoint) cs"

text \<open>
  The loop shared by the polygon and the multi constructors:
  \<open>for c in coordinates: parent.AddGeometry(make(c))\<close>.
\<close>

fun add_each :: "(coords \<Rightarrow> error + geom) \<Rightarrow> geom \<Rightarrow> coords list \<Rightarrow> error + geom" where
  "add_each make parent [] = Inr parent"
| "add_each make parent (c # cs) =
     (case make c of
        Inl e \<Rightarrow> Inl e
      | Inr child \<Rightarrow> add_each make (AddGeometry parent child) cs)"

definition add_all :: "(coords \<Rightarrow> error + geom) \<Rightarrow> geom \<Rightarrow> coords \<Rightarrow> error + geom" where
  "add_all make parent cs =
     (case cs of
        Num _ \<Rightarrow> Inl TypeError
      | Arr xs \<Rightarrow> add_each make parent xs)"

definition create_polygon :: "bool \<Rightarrow> coords \<Rightarrow> error + geom" where
  "create_polygon flatten cs =
     add_all (create_linearring flatten) (new_geometry wkbPolygon) cs"

definition create_multipolygon :: "bool \<Rightarrow> coords \<Rightarrow> error + geom" where
  "create_multipolygon flatten cs =
     add_all (create_polygon flatten) (new_geometry wkbMultiPolygon) cs"

definition create_multilinestring :: "bool \<Rightarrow> coords \<Rightarrow> error + geom" where
  "create_multilinestring flatten cs =
     add_all (create_linestring flatten) (new_geometry wkbMultiLineString) cs"

text \<open>
  \<open>create\<close> (lines 41 to 51) on a mapping: the handler is the attribute
  \<open>create_<lower-cased type>\<close> of the builder, and a name that is no attribute
  raises \<open>ValueError\<close>. The handler is then called with the mapping's keys as
  keyword arguments, so a missing \<open>coordinates\<close> (or \<open>geometries\<close>) is a
  \<open>TypeError\<close> of the call. A mapping without \<open>type\<close> fails the lookup
  \<open>geometry["type"]\<close> first. (A string argument goes to the binding's own JSON
  reader and is not modelled.)
\<close>

datatype builder_handler =
    H_polygon
  | H_linearring
  | H_linestring
  | H_multipolygon
  | H_point
  | H_geometrycollection
  | H_multilinestring

definition builder_getattr :: "string \<Rightarrow> builder_handler option" where
  "builder_getattr name =
     (if name = ''create_polygon'' then Some H_polygon
      else if name = ''create_linearring'' then Some H_linearring
      else if name = ''create_linestring'' then Some H_linestring
      else if name = ''create_multipolygon'' then Some H_multipolygon
      else if name = ''create_point'' then Some H_point
      else if name = ''create_geometrycollection'' then Some H_geometrycollection
      else if name = ''create_multilinestring'' then Some H_multilinestring
      else None)"

definition coordinates_handler :: "builder_handler \<Rightarrow> bool \<Rightarrow> coords \<Rightarrow> error + geom" where
  "coordinates_handler h flatten cs =
     (case h of
        H_polygon \<Rightarrow> create_polygon flatten cs
      | H_linearring \<Rightarrow> create_linearring flatten cs
      | H_linestring \<Rightarrow> create_linestring flatten cs
      | H_multipolygon \<Rightarrow> create_multipolygon flatten cs
      | H_point \<Rightarrow> create_point flatten cs
      | H_multilinestring \<Rightarrow> create_multilinestring flatten cs
      | H_geometrycollection \<Rightarrow> Inl TypeError)"

fun create :: "bool \<Rightarrow> geojson \<Rightarrow> error + geom"
  and create_geometrycollection :: "bool \<Rightarrow> geom \<Rightarrow> geojson list \<Rightarrow> error + geom" where
  "create flatten (Mapping None c gs) = Inl KeyError"
| "create flatten (Mapping (Some t) c gs) =
     (case builder_getattr (''create_'' @ lower t) of
        None \<Rightarrow> Inl (ValueError (lower t @ '' is not supported''))
      | Some H_geometrycollection \<Rightarrow>
          (case gs of
             None \<Rightarrow> Inl TypeError
           | Some members \<Rightarrow>
               create_geometrycollection flatten (new_geometry wkbGeometryCollection) members)
      | Some h \<Rightarrow>
          (case c of
             None \<Rightarrow> Inl TypeError
           | Some cs \<Rightarrow> coordinates_handler h flatten cs))"
| "create_geometrycollection flatten collection [] = Inr collection"
| "create_geometrycollection flatten collection (geometry # rest) =
     (case create flatten geometry of
        Inl e \<Rightarrow> Inl e
      | Inr child \<Rightarrow> create_geometrycollection flatten (AddGeometry collection child) rest)"

section \<open>GeometryGeoJson\<close>

text \<open>
  \<open>GeometryGeoJson(precision)\<close> keeps \<open>precision or 15\<close>: no precision and the
  precision \<open>0\<close> both become \<open>15\<close>.
\<close>

definition GeometryGeoJson :: "int option \<Rightarrow> int" where
  "GeometryGeoJson precision =
     (case precision of None \<Rightarrow> 15 | Some n \<Rightarrow> if n = 0 then 15 else n)"

text \<open>
  \<open>_get_points\<close> (lines 138 to 139) rounds every component of every point. Iterating
  the \<open>None\<close> that \<open>GetPoints()\<close> gives for a geometry without points is a
  \<open>TypeError\<close>.
\<close>

definition get_points :: "int \<Rightarrow> geom \<Rightarrow> error + coords list" where
  "get_points precision geometry =
     (case GetPoints geometry of
        None \<Rightarrow> Inl TypeError
      | Some ps \<Rightarrow> Inr (map (\<lambda>p. Arr (map (\<lambda>c. Num (py_round_n c precision)) p)) ps))"

fun get_points_each :: "int \<Rightarrow> geom list \<Rightarrow> error + coords list" where
  "get_points_each precision [] = Inr []"
| "get_points_each precision (g # gs) =
     (case get_points precision g of
        Inl e \<Rightarrow> Inl e
      | Inr ps \<Rightarrow>
          (case get_points_each precision gs of
             Inl e \<Rightarrow> Inl e
           | Inr rest \<Rightarrow> Inr (Arr ps # rest)))"

definition polygon_coordinates :: "int \<Rightarrow> geom \<Rightarrow> error + coords" where
  "polygon_coordinates precision geometry =
     (case get_points_each precision (gsubs geometry) of
        Inl e \<Rightarrow> Inl e
      | Inr rings \<Rightarrow> Inr (Arr rings))"

definition convert_polygon :: "int \<Rightarrow> geom \<Rightarrow> error + geojson" where
  "convert_polygon precision geometry =
     (case polygon_coordinates precision geometry of
        Inl e \<Rightarrow> Inl e
      | Inr cs \<Rightarrow> Inr (Mapping (Some ''Polygon'') (Some cs) None))"

fun polygon_coordinates_each :: "int \<Rightarrow> geom list \<Rightarrow> error + coords list" where
  "polygon_coordinates_each precision [] = Inr []"
| "polygon_coordinates_each precision (g # gs) =
     (case polygon_coordinates precision g of
        Inl e \<Rightarrow> Inl e
      | Inr cs \<Rightarrow>
          (case polygon_coordinates_each precision gs of
             Inl e \<Rightarrow> Inl e
           | Inr rest \<Rightarrow> Inr (cs # rest)))"

definition convert_multipolygon :: "int \<Rightarrow> geom \<Rightarrow> error + geojson" where
  "convert_multipolygon precision geometry =
     (case polygon_coordinates_each precision (gsubs geometry) of
        Inl e \<Rightarrow> Inl e
      | Inr cs \<Rightarrow> Inr (Mapping (Some ''MultiPolygon'') (Some (Arr cs)) None))"

definition convert_point :: "int \<Rightarrow> geom \<Rightarrow> error + geojson" where
  "convert_point precision geometry =
     (case get_points precision geometry of
        Inl e \<Rightarrow> Inl e
      | Inr [] \<Rightarrow> Inl IndexError
      | Inr (p # _) \<Rightarrow> Inr (Mapping (Some ''Point'') (Some p) None))"

definition convert_multilinestring :: "int \<Rightarrow> geom \<Rightarrow> error + geojson" where
  "convert_multilinestring precision geometry =
     (case get_points_each precision (gsubs geometry) of
        Inl e \<Rightarrow> Inl e
      | Inr lines \<Rightarrow> Inr (Mapping (Some ''MultiLineString'') (Some (Arr lines)) None))"

text \<open>
  \<open>convert\<close> (lines 103 to 109): the handler is the attribute
  \<open>convert_<lower-cased geometry name>\<close> of the serializer; the class has five of
  them.
\<close>

datatype serializer_handler =
    S_polygon
  | S_multipolygon
  | S_point
  | S_geometrycollection
  | S_multilinestring

definition serializer_getattr :: "string \<Rightarrow> serializer_handler option" where
  "serializer_getattr name =
     (if name = ''convert_polygon'' then Some S_polygon
      else if name = ''convert_multipolygon'' then Some S_multipolygon
      else if name = ''convert_point'' then Some S_point
      else if name = ''convert_geometrycollection'' then Some S_geometrycollection
      else if name = ''convert_multilinestring'' then Some S_multilinestring
      else None)"

fun convert :: "int \<Rightarrow> geom \<Rightarrow> error + geojson"
  and convert_geometrycollection :: "int \<Rightarrow> geom list \<Rightarrow> error + geojson list" where
  "convert precision (Geometry t ps subs) =
     (case serializer_getattr (''convert_'' @ lower (wkb_name t)) of
        None \<Rightarrow> Inl (ValueError (lower (wkb_name t) @ '' is not supported''))
      | Some S_polygon \<Rightarrow> convert_polygon precision (Geometry t ps subs)
      | Some S_multipolygon \<Rightarrow> convert_multipolygon precision (Geometry t ps subs)
      | Some S_point \<Rightarrow> convert_point precision (Geometry t ps subs)
      | Some S_multilinestring \<Rightarrow> convert_multilinestring precision (Geometry t ps subs)
      | Some S_geometrycollection \<Rightarrow>
          (case convert_geometrycollection precision subs of
             Inl e \<Rightarrow> Inl e
           | Inr members \<Rightarrow> Inr (Mapping (Some ''GeometryCollection'') None (Some members))))"
| "convert_geometrycollection precision [] = Inr []"
| "convert_geometrycollection precision (g # gs) =
     (case convert precision g of
        Inl e \<Rightarrow> Inl e
      | Inr m \<Rightarrow>
          (case convert_geometrycollection precision gs of
             Inl e \<Rightarrow> Inl e
           | Inr rest \<Rightarrow> Inr (m # rest)))"

section \<open>The mappings that come back from a round trip\<close>















section \<open>Objects and references\<close>

text \<open>
  Geometries and spatial references are mutable objects that the caller and the module
  share. An object is an address into a store; the store gives the value each address
  holds and counts the addresses handed out so far, so that a reference a caller holds
  is an address below the count and a new object gets the count as its address.
\<close>

datatype axis_strategy =
    OAMS_TRADITIONAL_GIS_ORDER
  | OAMS_AUTHORITY_COMPLIANT
  | OAMS_CUSTOM

record srs =
  crs :: string
  axis_mapping :: axis_strategy

record store =
  geoms :: "nat \<Rightarrow> geom"
  n_geoms :: nat
  srss :: "nat \<Rightarrow> srs"
  n_srss :: nat

definition alloc_geom :: "store \<Rightarrow> geom \<Rightarrow> nat \<times> store" where
  "alloc_geom W g =
     (n_geoms W, W\<lparr>geoms := (geoms W)(n_geoms W := g), n_geoms := Suc (n_geoms W)\<rparr>)"

definition alloc_srs :: "store \<Rightarrow> srs \<Rightarrow> nat \<times> store" where
  "alloc_srs W r =
     (n_srss W, W\<lparr>srss := (srss W)(n_srss W := r), n_srss := Suc (n_srss W)\<rparr>)"

definition geom_Clone :: "store \<Rightarrow> nat \<Rightarrow> nat \<times> store" where
  "geom_Clone W a = alloc_geom W (geoms W a)"

definition srs_Clone :: "store \<Rightarrow> nat \<Rightarrow> nat \<times> store" where
  "srs_Clone W a = alloc_srs W (srss W a)"

definition SetAxisMappingStrategy :: "store \<Rightarrow> nat \<Rightarrow> axis_strategy \<Rightarrow> store" where
  "SetAxisMappingStrategy W a strategy =
     W\<lparr>srss := (srss W)(a := (srss W a)\<lparr>axis_mapping := strategy\<rparr>)\<rparr>"

text \<open>
  What the GDAL bindings compute is not part of the repository, so it is a parameter
  of the model: building a coordinate transformation from two spatial references (it
  can raise), applying one to a geometry (it can raise; otherwise the geometry is left
  as the call leaves it, whatever return code the module then ignores), repairing a
  geometry and taking the union of two (both can raise or return \<open>None\<close>), and the
  message \<open>gdal.GetLastErrorMsg()\<close> holds after a repair of that geometry failed.
\<close>

record 'ct ogr_lib =
  CoordinateTransformation :: "srs \<Rightarrow> srs \<Rightarrow> error + 'ct"
  Transform :: "'ct \<Rightarrow> geom \<Rightarrow> error + geom"
  MakeValid :: "geom \<Rightarrow> error + geom option"
  Union_geom :: "geom \<Rightarrow> geom \<Rightarrow> error + geom option"
  GetLastErrorMsg :: "geom \<Rightarrow> string"

section \<open>to_geojson\<close>

text \<open>
  \<open>to_geojson\<close> (lines 142 to 146): with \<open>flatten\<close> the caller's object is
  flattened where it stands, then serialised.
\<close>

definition to_geojson :: "store \<Rightarrow> nat \<Rightarrow> bool \<Rightarrow> int option \<Rightarrow> (error + geojson) \<times> store" where
  "to_geojson W geometry flatten precision =
     (let W1 = (if flatten
                then W\<lparr>geoms := (geoms W)(geometry := FlattenTo2D (geoms W geometry))\<rparr>
                else W)
      in (convert (GeometryGeoJson precision) (geoms W1 geometry), W1))"

section \<open>transform_by_srs\<close>

text \<open>
  \<open>transform_by_srs\<close> (lines 155 to 165). The names \<open>from_srs\<close> and \<open>to_srs\<close>
  are rebound to the clones; the result is the address of the transformed clone.
\<close>

definition transform_by_srs ::
  "'ct ogr_lib \<Rightarrow> store \<Rightarrow> nat \<Rightarrow> nat \<Rightarrow> nat \<Rightarrow> (error + nat) \<times> store" where
  "transform_by_srs lib W geometry from_srs to_srs =
     (let (from_clone, W1) = srs_Clone W from_srs;
          W2 = SetAxisMappingStrategy W1 from_clone OAMS_TRADITIONAL_GIS_ORDER;
          (to_clone, W3) = srs_Clone W2 to_srs;
          W4 = SetAxisMappingStrategy W3 to_clone OAMS_TRADITIONAL_GIS_ORDER
      in case CoordinateTransformation lib (srss W4 from_clone) (srss W4 to_clone) of
           Inl e \<Rightarrow> (Inl e, W4)
         | Inr transformation \<Rightarrow>
             (let (result_geometry, W5) = geom_Clone W4 geometry
              in case Transform lib transformation (geoms W5 result_geometry) of
                   Inl e \<Rightarrow> (Inl e, W5)
                 | Inr moved \<Rightarrow>
                     (Inr result_geometry,
                      W5\<lparr>geoms := (geoms W5)(result_geometry := moved)\<rparr>)))"

section \<open>make_valid\<close>

text \<open>
  The loop of lines 201 to 206: a member that is neither a polygon nor a multipolygon
  is skipped, every other one is united with what has been accumulated. A union that
  returned \<open>None\<close> makes the next \<open>.Union\<close> an \<open>AttributeError\<close>.
\<close>

fun union_members :: "'ct ogr_lib \<Rightarrow> geom option \<Rightarrow> geom list \<Rightarrow> error + geom option" where
  "union_members lib union_geometry [] = Inr union_geometry"
| "union_members lib union_geometry (sub_geometry # rest) =
     (if GetGeometryName sub_geometry \<noteq> ''MULTIPOLYGON''
         \<and> GetGeometryName sub_geometry \<noteq> ''POLYGON''
      then union_members lib union_geometry rest
      else
        (case union_geometry of
           None \<Rightarrow> Inl AttributeError
         | Some u \<Rightarrow>
             (case Union_geom lib u sub_geometry of
                Inl e \<Rightarrow> Inl e
              | Inr u' \<Rightarrow> union_members lib u' rest)))"

text \<open>
  Lines 194 to 219, on the value the input holds once its rings are closed. The result
  is \<open>None\<close> when the last union returned \<open>None\<close> and the input is no
  multipolygon (for a multipolygon the test of line 212 calls a method of it).
\<close>

definition repaired :: "'ct ogr_lib \<Rightarrow> geom \<Rightarrow> error + geom option" where
  "repaired lib geometry =
     (case MakeValid lib geometry of
        Inl e \<Rightarrow> Inl e
      | Inr None \<Rightarrow> Inl (RuntimeError (GetLastErrorMsg lib geometry))
      | Inr (Some valid_geometry) \<Rightarrow>
          if GetGeometryName valid_geometry = ''GEOMETRYCOLLECTION'' then
            (let geometry_type = GetGeometryName geometry;
                 union_geometry = new_geometry
                   (if geometry_type = ''MULTIPOLYGON'' then wkbMultiPolygon else wkbPolygon)
             in case union_members lib (Some union_geometry) (gsubs valid_geometry) of
                  Inl e \<Rightarrow> Inl e
                | Inr u \<Rightarrow>
                    if geometry_type = ''MULTIPOLYGON'' then
                      (case u of
                         None \<Rightarrow> Inl AttributeError
                       | Some v \<Rightarrow>
                           if GetGeometryName v = ''POLYGON''
                           then Inr (Some (AddGeometry (new_geometry wkbMultiPolygon) v))
                           else Inr (Some v))
                    else Inr u)
          else Inr (Some valid_geometry))"

text \<open>
  \<open>make_valid\<close> (lines 192 to 219): \<open>CloseRings()\<close> is called on the object the
  caller passed, and the result is a new object. The objects the function makes and
  drops on the way are not kept in the store.
\<close>

definition make_valid :: "'ct ogr_lib \<Rightarrow> store \<Rightarrow> nat \<Rightarrow> (error + nat option) \<times> store" where
  "make_valid lib W geometry =
     (let W1 = W\<lparr>geoms := (geoms W)(geometry := CloseRings (geoms W geometry))\<rparr>
      in case repaired lib (geoms W1 geometry) of
           Inl e \<Rightarrow> (Inl e, W1)
         | Inr None \<Rightarrow> (Inr None, W1)
         | Inr (Some v) \<Rightarrow> (let (r, W2) = alloc_geom W1 v in (Inr (Some r), W2)))"

text \<open>
  \<open>make_valid_geojson\<close> (lines 186 to 189): the geometry is built with the default
  \<open>flatten = True\<close>, repaired and serialised.
\<close>

definition make_valid_geojson ::
  "'ct ogr_lib \<Rightarrow> store \<Rightarrow> geojson \<Rightarrow> int option \<Rightarrow> (error + geojson) \<times> store" where
  "make_valid_geojson lib W geometry precision =
     (case create True geometry of
        Inl e \<Rightarrow> (Inl e, W)
      | Inr g \<Rightarrow>
          (let (gdal_geometry, W1) = alloc_geom W g;
               (r, W2) = make_valid lib W1 gdal_geometry
           in case r of
                Inl e \<Rightarrow> (Inl e, W2)
              | Inr None \<Rightarrow> (Inl AttributeError, W2)
              | Inr (Some v) \<Rightarrow> (convert (GeometryGeoJson precision) (geoms W2 v), W2)))"

section \<open>A stand-in for the bindings, for the worked examples\<close>

text \<open>
  The theorems below hold for every behaviour of the bindings. The worked examples need
  one to run, and use this one. A coordinate transformation cannot be built from a
  spatial reference with an empty definition (the constructor raises); one that can be
  built is just a token, and applying it swaps the first two coordinates of every point.
  Repairing the two unit squares that share an edge gives the one rectangle that covers
  them, a polygon; repairing the square with a spike gives a collection of the square
  and the spike's line; every other geometry is returned as it is. The union with an
  empty geometry is the other operand, and any other union is the multipolygon of the
  polygons of both.
\<close>

definition square :: "real \<Rightarrow> real \<Rightarrow> geom" where
  "square x y =
     Geometry wkbPolygon []
       [Geometry wkbLinearRing [[x, y], [x + 1, y], [x + 1, y + 1], [x, y + 1], [x, y]] []]"

definition two_squares :: geom where
  "two_squares = Geometry wkbMultiPolygon [] [square 0 0, square 1 0]"

definition rectangle :: geom where
  "rectangle =
     Geometry wkbPolygon []
       [Geometry wkbLinearRing [[0, 0], [2, 0], [2, 1], [0, 1], [0, 0]] []]"

definition spiked_square :: geom where
  "spiked_square =
     Geometry wkbPolygon []
       [Geometry wkbLinearRing [[0, 0], [1, 0], [1, 1], [2, 2], [1, 1], [0, 1], [0, 0]] []]"

definition spike :: geom where
  "spike = Geometry wkbLineString [[1, 1], [2, 2]] []"

fun swap_xy :: "geom \<Rightarrow> geom" where
  "swap_xy (Geometry t ps subs) =
     Geometry t (map (\<lambda>p. case p of x # y # zs \<Rightarrow> y # x # zs | _ \<Rightarrow> p) ps) (map swap_xy subs)"

definition polygons_of :: "geom \<Rightarrow> geom list" where
  "polygons_of g = (if gtype g = wkbPolygon then [g] else gsubs g)"

definition example_lib :: "unit ogr_lib" where
  "example_lib =
     \<lparr>CoordinateTransformation =
        (\<lambda>a b. if crs a = [] \<or> crs b = []
               then Inl (RuntimeError ''no transformation between the spatial references'')
               else Inr ()),
      Transform = (\<lambda>ct g. Inr (swap_xy g)),
      MakeValid =
        (\<lambda>g. if g = two_squares then Inr (Some rectangle)
              else if g = spiked_square \<or> g = Geometry wkbMultiPolygon [] [spiked_square]
              then Inr (Some (Geometry wkbGeometryCollection [] [square 0 0, spike]))
              else Inr (Some g)),
      Union_geom =
        (\<lambda>u s. if gsubs u = [] then Inr (Some s)
                else Inr (Some (Geometry wkbMultiPolygon [] (polygons_of u @ polygons_of s)))),
      GetLastErrorMsg = (\<lambda>g. [])\<rparr>"


text \<open>
  A store for the examples: the objects are given by lists, and an address past the
  end of a list holds an empty point, or a spatial reference with an empty definition.
\<close>

definition store_of :: "geom list \<Rightarrow> srs list \<Rightarrow> store" where
  "store_of gs rs =
     \<lparr>geoms = (\<lambda>a. if a < length gs then gs ! a else Geometry wkbPoint [] []),
      n_geoms = length gs,
      srss = (\<lambda>a. if a < length rs then rs ! a
                    else \<lparr>crs = [], axis_mapping = OAMS_AUTHORITY_COMPLIANT\<rparr>),
      n_srss = length rs\<rparr>"

section \<open>Nodata-aware compositing\<close>

text \<open>
  Modelled from the spec: the warp and union engine (\<open>RasterDataset.warp\<close> and
  \<open>RasterDataset.union\<close> of \<open>gdal_boots/gdal.py\<close>) is not among the sources, only
  its tests are. The spec's words are: the inputs are merged into one output grid, and
  per-pixel compositing respects each input's nodata value, so that a later-composited
  dataset's nodata pixels do not overwrite valid earlier pixels (last non-nodata wins,
  per band). A dataset gives, for a band and a cell of the output grid, the value it has
  there (none outside its footprint) and, for a band, its nodata value (none when it has
  no nodata value, in which case every pixel of it counts). The inputs are composited in
  their order, the primary dataset first, over the fill value of the output.
\<close>

record dataset =
  nodata :: "nat \<Rightarrow> int option"
  pixel :: "nat \<Rightarrow> int \<times> int \<Rightarrow> int option"

text \<open>
  Modelled from the spec: the warp and union engine is not among the sources. What a
  dataset contributes at a cell of a band: its value there, unless the cell is outside
  its footprint or the value is its nodata value for the band.
\<close>

definition contribution :: "dataset \<Rightarrow> nat \<Rightarrow> int \<times> int \<Rightarrow> int option" where
  "contribution d b p =
     (case pixel d b p of
        None \<Rightarrow> None
      | Some v \<Rightarrow> if nodata d b = Some v then None else Some v)"

text \<open>
  Modelled from the spec: the warp and union engine is not among the sources. The merged
  value of a cell of a band: the inputs are laid over the fill value one after the other,
  and an input replaces what is there only where it contributes.
\<close>

fun composite :: "int \<Rightarrow> dataset list \<Rightarrow> nat \<Rightarrow> int \<times> int \<Rightarrow> int" where
  "composite fill [] b p = fill"
| "composite fill (d # ds) b p =
     composite (case contribution d b p of None \<Rightarrow> fill | Some v \<Rightarrow> v) ds b p"

text \<open>
  The datasets of the spec's union example: a rectangle of the output grid, columns
  \<open>x0 \<le> x < x1\<close> and rows \<open>y0 \<le> y < y1\<close>, with one value per band inside and
  the nodata value on its one-cell border, the same in every band below \<open>n\<close>.
\<close>

definition framed ::
  "nat \<Rightarrow> (nat \<Rightarrow> int) \<Rightarrow> int \<Rightarrow> int \<times> int \<Rightarrow> int \<times> int \<Rightarrow> nat \<Rightarrow> int \<times> int \<Rightarrow> int option" where
  "framed n val nd lo hi b p =
     (if b < n \<and> fst lo \<le> fst p \<and> fst p < fst hi \<and> snd lo \<le> snd p \<and> snd p < snd hi
      then (if fst p = fst lo \<or> fst p = fst hi - 1 \<or> snd p = snd lo \<or> snd p = snd hi - 1
            then Some nd else Some (val b))
      else None)"

definition dataset_A :: dataset where
  "dataset_A = \<lparr>nodata = (\<lambda>b. Some 255), pixel = framed 1 (\<lambda>b. 1) 255 (0, 0) (4, 4)\<rparr>"

definition dataset_B :: dataset where
  "dataset_B = \<lparr>nodata = (\<lambda>b. Some 255), pixel = framed 1 (\<lambda>b. 3) 255 (2, 0) (6, 4)\<rparr>"

section \<open>Resolution calculator: the cell count and the fixed point\<close>

lemma py_round_int_eps: "py_round (of_int k + cell_eps) = k"
proof -
  have "\<lfloor>of_int k + cell_eps\<rfloor> = k"
    by (simp add: cell_eps_def floor_eq_iff)
  then show ?thesis
    by (simp add: py_round_def cell_eps_def Let_def)
qed


text \<open>Without the epsilon, eight and a half cells round to the even eight.\<close>

lemma py_round_half_even: "py_round (17 / 2) = 8"
  by (simp add: py_round_def Let_def)

lemma cells_ge_1: "1 \<le> cells d r"
  by (simp add: cells_def)

text \<open>A zero resolution has no cell count: the division raises.\<close>

lemma calc_best_resolution_bbox_zero:
  "calc_best_resolution_bbox x_min x_max y_min y_max (0, ry) = Inl ZeroDivisionError"
  "calc_best_resolution_bbox x_min x_max y_min y_max (rx, 0) = Inl ZeroDivisionError"
  by (simp_all add: calc_best_resolution_bbox_def Let_def)




text \<open>
  A box of zero width (the envelope of a point, say) has the resolution 0 across, and
  that resolution cannot be fed back: the second call divides by it.
\<close>

theorem best_resolution_fixed_point_counterexample:
  "calc_best_resolution_bbox 5 5 0 10 (1, 1) = Inr (0, 1)
   \<and> calc_best_resolution_bbox 5 5 0 10 (0, 1) = Inl ZeroDivisionError"
proof -
  have a: "py_round (0 + cell_eps) = 0" using py_round_int_eps [of 0] by simp
  have b: "py_round (10 + cell_eps) = 10" using py_round_int_eps [of 10] by simp
  show ?thesis
    using a b by (simp add: calc_best_resolution_bbox_def cells_def Let_def)
qed

lemma cells_self:
  assumes "d \<noteq> 0"
  shows "cells d (d / of_int (cells d r)) = cells d r"
proof -
  have pos: "1 \<le> cells d r" by (simp add: cells_def)
  then have nz: "(of_int (cells d r) :: real) \<noteq> 0" by simp
  have "d / (d / of_int (cells d r)) = of_int (cells d r)"
    using assms nz by simp
  then have "cells d (d / of_int (cells d r)) = max 1 (cells d r)"
    by (simp add: cells_def [of d "d / of_int (cells d r)"] py_round_int_eps)
  with pos show ?thesis by simp
qed

text \<open>
  C5, amended. For a box whose width and height are not zero and a resolution with no
  zero component, \<open>calc_best_resolution_bbox\<close> returns a resolution, and the same
  box at that resolution gives that resolution again.
\<close>

theorem best_resolution_fixed_point:
  assumes "x_max \<noteq> x_min" and "y_max \<noteq> y_min"
    and "fst r \<noteq> 0" and "snd r \<noteq> 0"
  shows "\<exists>r'. calc_best_resolution_bbox x_min x_max y_min y_max r = Inr r'
            \<and> calc_best_resolution_bbox x_min x_max y_min y_max r' = Inr r'"
proof -
  let ?dx = "x_max - x_min" and ?dy = "y_max - y_min"
  let ?r' = "(?dx / of_int (cells ?dx (fst r)), ?dy / of_int (cells ?dy (snd r)))"
  have dx: "?dx \<noteq> 0" and dy: "?dy \<noteq> 0" using assms by simp_all
  have px: "(of_int (cells ?dx (fst r)) :: real) \<noteq> 0"
   and py: "(of_int (cells ?dy (snd r)) :: real) \<noteq> 0"
    using cells_ge_1 [of ?dx "fst r"] cells_ge_1 [of ?dy "snd r"] by simp_all
  have first: "calc_best_resolution_bbox x_min x_max y_min y_max r = Inr ?r'"
    using assms by (simp add: calc_best_resolution_bbox_def Let_def)
  have "calc_best_resolution_bbox x_min x_max y_min y_max ?r' = Inr ?r'"
    using dx dy px py cells_self [OF dx, of "fst r"] cells_self [OF dy, of "snd r"]
    by (simp add: calc_best_resolution_bbox_def Let_def)
  with first show ?thesis by blast
qed

theorem best_resolution_fixed_point_witness:
  "calc_best_resolution_bbox 0 17 0 10 (2, 3) = Inr (17 / 9, 10 / 3)
   \<and> calc_best_resolution_bbox 0 17 0 10 (17 / 9, 10 / 3) = Inr (17 / 9, 10 / 3)"
proof -
  have a: "py_round (17 / 2 + cell_eps) = 9"
    by (simp add: py_round_def cell_eps_def Let_def)
  have b: "py_round (10 / 3 + cell_eps) = 3"
    by (simp add: py_round_def cell_eps_def Let_def)
  have first: "calc_best_resolution_bbox 0 17 0 10 (2, 3) = Inr (17 / 9, 10 / 3)"
    using a b by (simp add: calc_best_resolution_bbox_def cells_def Let_def)
  obtain r' where r': "calc_best_resolution_bbox 0 17 0 10 (2, 3) = Inr r'"
      "calc_best_resolution_bbox 0 17 0 10 r' = Inr r'"
    using best_resolution_fixed_point [of 17 0 10 0 "(2, 3)"] by auto
  with first show ?thesis by simp
qed

section \<open>Dispatch by type name\<close>

text \<open>The type tags the builder has a handler for, and the geometries the serializer has none for.\<close>

lemma builder_getattr_None:
  "builder_getattr (''create_'' @ n) = None \<longleftrightarrow>
     n \<notin> {''polygon'', ''linearring'', ''linestring'', ''multipolygon'', ''point'',
           ''geometrycollection'', ''multilinestring''}"
  by (simp add: builder_getattr_def)

lemma serializer_getattr_None:
  "serializer_getattr (''convert_'' @ lower (GetGeometryName g)) = None \<longleftrightarrow>
     gtype g \<in> {wkbLineString, wkbLinearRing, wkbMultiPoint}"
  by (cases "gtype g") (simp_all add: GetGeometryName_def serializer_getattr_def lower_def lower_char_def)

lemma gtype_FlattenTo2D: "gtype (FlattenTo2D g) = gtype g"
  by (cases g) simp

lemma convert_unsupported:
  assumes "serializer_getattr (''convert_'' @ lower (GetGeometryName g)) = None"
  shows "convert precision g = Inl (ValueError (lower (GetGeometryName g) @ '' is not supported''))"
  using assms by (cases g) (simp add: GetGeometryName_def)

text \<open>
  C6. A mapping whose lower-cased type tag names no \<open>create_\<close> method of the builder
  makes \<open>create\<close> raise \<open>ValueError("<tag> is not supported")\<close>, whatever else the
  mapping holds; a geometry whose lower-cased name names no \<open>convert_\<close> method of the
  serializer makes \<open>convert\<close> raise the same error, and \<open>to_geojson\<close> passes it on.
  \<open>ValueError\<close> with this message is the error the spec calls UnsupportedGeometryType.
\<close>

theorem unsupported_geometry_type:
  "(builder_getattr (''create_'' @ lower t) = None \<longrightarrow>
      create flatten (Mapping (Some t) c gs) = Inl (ValueError (lower t @ '' is not supported'')))
   \<and> (serializer_getattr (''convert_'' @ lower (GetGeometryName g)) = None \<longrightarrow>
      convert precision g = Inl (ValueError (lower (GetGeometryName g) @ '' is not supported'')))
   \<and> (serializer_getattr (''convert_'' @ lower (GetGeometryName (geoms W a))) = None \<longrightarrow>
      fst (to_geojson W a fl pr)
        = Inl (ValueError (lower (GetGeometryName (geoms W a)) @ '' is not supported'')))"
proof (intro conjI impI)
  assume "builder_getattr (''create_'' @ lower t) = None"
  then show "create flatten (Mapping (Some t) c gs) = Inl (ValueError (lower t @ '' is not supported''))"
    by simp
next
  assume "serializer_getattr (''convert_'' @ lower (GetGeometryName g)) = None"
  then show "convert precision g = Inl (ValueError (lower (GetGeometryName g) @ '' is not supported''))"
    by (rule convert_unsupported)
next
  assume h: "serializer_getattr (''convert_'' @ lower (GetGeometryName (geoms W a))) = None"
  have n: "GetGeometryName (FlattenTo2D (geoms W a)) = GetGeometryName (geoms W a)"
    by (simp add: GetGeometryName_def gtype_FlattenTo2D)
  show "fst (to_geojson W a fl pr)
        = Inl (ValueError (lower (GetGeometryName (geoms W a)) @ '' is not supported''))"
  proof (cases fl)
    case True
    have "convert (GeometryGeoJson pr) (FlattenTo2D (geoms W a))
        = Inl (ValueError (lower (GetGeometryName (FlattenTo2D (geoms W a))) @ '' is not supported''))"
      using h n by (intro convert_unsupported) simp
    with True n show ?thesis by (simp add: to_geojson_def Let_def)
  next
    case False
    with h show ?thesis by (simp add: to_geojson_def Let_def convert_unsupported)
  qed
qed

text \<open>The tag \<open>Circle\<close> for the builder, a multipoint for the serializer.\<close>

theorem unsupported_geometry_type_witness:
  "create True (Mapping (Some ''Circle'') (Some (Arr [Num 0, Num 0])) None)
     = Inl (ValueError ''circle is not supported'')
   \<and> convert 15 (Geometry wkbMultiPoint [] [Geometry wkbPoint [[0, 0]] []])
     = Inl (ValueError ''multipoint is not supported'')
   \<and> fst (to_geojson
        \<lparr>geoms = (\<lambda>_. Geometry wkbMultiPoint [] [Geometry wkbPoint [[0, 0]] []]),
         n_geoms = 1,
         srss = (\<lambda>_. \<lparr>crs = ''EPSG:4326'', axis_mapping = OAMS_AUTHORITY_COMPLIANT\<rparr>),
         n_srss = 0\<rparr> 0 True None)
     = Inl (ValueError ''multipoint is not supported'')"
proof -
  have b: "builder_getattr (''create_'' @ lower ''Circle'') = None"
    by (simp add: lower_def lower_char_def builder_getattr_def)
  have s: "serializer_getattr (''convert_'' @
      lower (GetGeometryName (Geometry wkbMultiPoint [] [Geometry wkbPoint [[0, 0]] []]))) = None"
    by (simp add: GetGeometryName_def lower_def lower_char_def serializer_getattr_def)
  have l: "lower ''Circle'' = ''circle''" "lower ''MULTIPOINT'' = ''multipoint''"
    by (simp_all add: lower_def lower_char_def)
  show ?thesis
    using unsupported_geometry_type
      [of "''Circle''" True "Some (Arr [Num 0, Num 0])" None
          "Geometry wkbMultiPoint [] [Geometry wkbPoint [[0, 0]] []]" 15
          "\<lparr>geoms = (\<lambda>_. Geometry wkbMultiPoint [] [Geometry wkbPoint [[0, 0]] []]),
         n_geoms = 1,
         srss = (\<lambda>_. \<lparr>crs = ''EPSG:4326'', axis_mapping = OAMS_AUTHORITY_COMPLIANT\<rparr>),
         n_srss = 0\<rparr>" 0 True None] b s l
    by (simp add: GetGeometryName_def)
qed

section \<open>transform_by_srs: what it touches and what it passes on\<close>

text \<open>
  The function written out: the two clones take the next two addresses for spatial
  references, the clone of the geometry the next address for geometries.
\<close>

lemma transform_by_srs_unfold:
  assumes "to_srs \<noteq> n_srss W"
  shows "transform_by_srs lib W geometry from_srs to_srs =
     (let F = (srss W from_srs)\<lparr>axis_mapping := OAMS_TRADITIONAL_GIS_ORDER\<rparr>;
          T = (srss W to_srs)\<lparr>axis_mapping := OAMS_TRADITIONAL_GIS_ORDER\<rparr>;
          W4 = W\<lparr>srss := (srss W)(n_srss W := F, Suc (n_srss W) := T),
                 n_srss := Suc (Suc (n_srss W))\<rparr>
      in case CoordinateTransformation lib F T of
           Inl e \<Rightarrow> (Inl e, W4)
         | Inr ct \<Rightarrow>
             (case Transform lib ct (geoms W geometry) of
                Inl e \<Rightarrow> (Inl e, W4\<lparr>geoms := (geoms W)(n_geoms W := geoms W geometry),
                                     n_geoms := Suc (n_geoms W)\<rparr>)
              | Inr moved \<Rightarrow> (Inr (n_geoms W),
                    W4\<lparr>geoms := (geoms W)(n_geoms W := moved), n_geoms := Suc (n_geoms W)\<rparr>)))"
  using assms
  by (simp add: transform_by_srs_def srs_Clone_def alloc_srs_def geom_Clone_def alloc_geom_def
      SetAxisMappingStrategy_def Let_def split: sum.splits)



lemma transform_by_srs_geoms_kept:
  assumes "to_srs \<noteq> n_srss W" and "a < n_geoms W"
  shows "geoms (snd (transform_by_srs lib W geometry from_srs to_srs)) a = geoms W a"
  using assms(2)
  by (simp add: transform_by_srs_unfold [OF assms(1)] Let_def split: sum.splits)

lemma transform_by_srs_srss_kept:
  assumes "to_srs \<noteq> n_srss W" and "a < n_srss W"
  shows "srss (snd (transform_by_srs lib W geometry from_srs to_srs)) a = srss W a"
  using assms(2)
  by (simp add: transform_by_srs_unfold [OF assms(1)] Let_def split: sum.splits)

lemma transform_by_srs_clones:
  assumes "to_srs \<noteq> n_srss W"
  shows "srss (snd (transform_by_srs lib W geometry from_srs to_srs)) (n_srss W)
            = (srss W from_srs)\<lparr>axis_mapping := OAMS_TRADITIONAL_GIS_ORDER\<rparr>"
    and "srss (snd (transform_by_srs lib W geometry from_srs to_srs)) (Suc (n_srss W))
            = (srss W to_srs)\<lparr>axis_mapping := OAMS_TRADITIONAL_GIS_ORDER\<rparr>"
  by (simp_all add: transform_by_srs_unfold [OF assms] Let_def split: sum.splits)

lemma transform_by_srs_success:
  assumes "to_srs \<noteq> n_srss W"
    and "CoordinateTransformation lib
           ((srss W from_srs)\<lparr>axis_mapping := OAMS_TRADITIONAL_GIS_ORDER\<rparr>)
           ((srss W to_srs)\<lparr>axis_mapping := OAMS_TRADITIONAL_GIS_ORDER\<rparr>) = Inr ct"
    and "Transform lib ct (geoms W geometry) = Inr moved"
  shows "fst (transform_by_srs lib W geometry from_srs to_srs) = Inr (n_geoms W)"
    and "geoms (snd (transform_by_srs lib W geometry from_srs to_srs)) (n_geoms W) = moved"
  using assms(2,3)
  by (simp_all add: transform_by_srs_unfold [OF assms(1)] Let_def)

lemma transform_by_srs_ctor_raises:
  assumes "to_srs \<noteq> n_srss W"
    and "CoordinateTransformation lib
           ((srss W from_srs)\<lparr>axis_mapping := OAMS_TRADITIONAL_GIS_ORDER\<rparr>)
           ((srss W to_srs)\<lparr>axis_mapping := OAMS_TRADITIONAL_GIS_ORDER\<rparr>) = Inl e"
  shows "fst (transform_by_srs lib W geometry from_srs to_srs) = Inl e"
  using assms(2)
  by (simp add: transform_by_srs_unfold [OF assms(1)] Let_def)

lemma transform_by_srs_transform_raises:
  assumes "to_srs \<noteq> n_srss W"
    and "CoordinateTransformation lib
           ((srss W from_srs)\<lparr>axis_mapping := OAMS_TRADITIONAL_GIS_ORDER\<rparr>)
           ((srss W to_srs)\<lparr>axis_mapping := OAMS_TRADITIONAL_GIS_ORDER\<rparr>) = Inr ct"
    and "Transform lib ct (geoms W geometry) = Inl e"
  shows "fst (transform_by_srs lib W geometry from_srs to_srs) = Inl e"
  using assms(2,3)
  by (simp add: transform_by_srs_unfold [OF assms(1)] Let_def)

lemma transform_by_srs_result:
  assumes "to_srs \<noteq> n_srss W"
    and "fst (transform_by_srs lib W geometry from_srs to_srs) = Inr r"
  shows "r = n_geoms W
       \<and> (\<exists>ct. CoordinateTransformation lib
                  ((srss W from_srs)\<lparr>axis_mapping := OAMS_TRADITIONAL_GIS_ORDER\<rparr>)
                  ((srss W to_srs)\<lparr>axis_mapping := OAMS_TRADITIONAL_GIS_ORDER\<rparr>) = Inr ct
                \<and> Transform lib ct (geoms W geometry)
                    = Inr (geoms (snd (transform_by_srs lib W geometry from_srs to_srs)) r))"
proof (cases "CoordinateTransformation lib
                  ((srss W from_srs)\<lparr>axis_mapping := OAMS_TRADITIONAL_GIS_ORDER\<rparr>)
                  ((srss W to_srs)\<lparr>axis_mapping := OAMS_TRADITIONAL_GIS_ORDER\<rparr>)")
  case (Inl e)
  from transform_by_srs_ctor_raises [OF assms(1) Inl] assms(2) show ?thesis by simp
next
  case (Inr ct)
  show ?thesis
  proof (cases "Transform lib ct (geoms W geometry)")
    case (Inl e)
    from transform_by_srs_transform_raises [OF assms(1) Inr Inl] assms(2) show ?thesis by simp
  next
    case moved: (Inr moved)
    from transform_by_srs_success [OF assms(1) Inr moved] assms(2) Inr moved
    show ?thesis by simp
  qed
qed

lemma store_of_simps:
  "n_geoms (store_of gs rs) = length gs"
  "n_srss (store_of gs rs) = length rs"
  "a < length gs \<Longrightarrow> geoms (store_of gs rs) a = gs ! a"
  "b < length rs \<Longrightarrow> srss (store_of gs rs) b = rs ! b"
  by (simp_all add: store_of_def)

text \<open>
  C8. For references the caller holds, \<open>transform_by_srs\<close> changes no geometry and
  no spatial reference that existed before the call, the three inputs among them. The
  two new spatial references are the clones of the inputs with the traditional axis
  order set; the transformation is built from these two values; the result is a new
  geometry object, holding what the transformation makes of the input's value.
\<close>

theorem transform_by_srs_leaves_inputs:
  assumes "geometry < n_geoms W" and "from_srs < n_srss W" and "to_srs < n_srss W"
  shows "(\<forall>a. a < n_geoms W \<longrightarrow>
            geoms (snd (transform_by_srs lib W geometry from_srs to_srs)) a = geoms W a)
       \<and> (\<forall>a. a < n_srss W \<longrightarrow>
            srss (snd (transform_by_srs lib W geometry from_srs to_srs)) a = srss W a)
       \<and> srss (snd (transform_by_srs lib W geometry from_srs to_srs)) (n_srss W)
            = (srss W from_srs)\<lparr>axis_mapping := OAMS_TRADITIONAL_GIS_ORDER\<rparr>
       \<and> srss (snd (transform_by_srs lib W geometry from_srs to_srs)) (Suc (n_srss W))
            = (srss W to_srs)\<lparr>axis_mapping := OAMS_TRADITIONAL_GIS_ORDER\<rparr>
       \<and> (\<forall>ct moved.
            CoordinateTransformation lib
               ((srss W from_srs)\<lparr>axis_mapping := OAMS_TRADITIONAL_GIS_ORDER\<rparr>)
               ((srss W to_srs)\<lparr>axis_mapping := OAMS_TRADITIONAL_GIS_ORDER\<rparr>) = Inr ct
            \<and> Transform lib ct (geoms W geometry) = Inr moved \<longrightarrow>
            fst (transform_by_srs lib W geometry from_srs to_srs) = Inr (n_geoms W)
            \<and> geoms (snd (transform_by_srs lib W geometry from_srs to_srs)) (n_geoms W) = moved)
       \<and> (\<forall>r. fst (transform_by_srs lib W geometry from_srs to_srs) = Inr r \<longrightarrow>
            r = n_geoms W
            \<and> (\<exists>ct. CoordinateTransformation lib
                  ((srss W from_srs)\<lparr>axis_mapping := OAMS_TRADITIONAL_GIS_ORDER\<rparr>)
                  ((srss W to_srs)\<lparr>axis_mapping := OAMS_TRADITIONAL_GIS_ORDER\<rparr>) = Inr ct
                \<and> Transform lib ct (geoms W geometry)
                    = Inr (geoms (snd (transform_by_srs lib W geometry from_srs to_srs)) r)))"
proof -
  have ne: "to_srs \<noteq> n_srss W" using assms(3) by simp
  show ?thesis
  proof (intro conjI allI impI)
    fix a assume "a < n_geoms W"
    then show "geoms (snd (transform_by_srs lib W geometry from_srs to_srs)) a = geoms W a"
      by (rule transform_by_srs_geoms_kept [OF ne])
  next
    fix a assume "a < n_srss W"
    then show "srss (snd (transform_by_srs lib W geometry from_srs to_srs)) a = srss W a"
      by (rule transform_by_srs_srss_kept [OF ne])
  next
    show "srss (snd (transform_by_srs lib W geometry from_srs to_srs)) (n_srss W)
            = (srss W from_srs)\<lparr>axis_mapping := OAMS_TRADITIONAL_GIS_ORDER\<rparr>"
      by (rule transform_by_srs_clones(1) [OF ne])
  next
    show "srss (snd (transform_by_srs lib W geometry from_srs to_srs)) (Suc (n_srss W))
            = (srss W to_srs)\<lparr>axis_mapping := OAMS_TRADITIONAL_GIS_ORDER\<rparr>"
      by (rule transform_by_srs_clones(2) [OF ne])
  next
    fix ct moved
    assume h: "CoordinateTransformation lib
               ((srss W from_srs)\<lparr>axis_mapping := OAMS_TRADITIONAL_GIS_ORDER\<rparr>)
               ((srss W to_srs)\<lparr>axis_mapping := OAMS_TRADITIONAL_GIS_ORDER\<rparr>) = Inr ct
            \<and> Transform lib ct (geoms W geometry) = Inr moved"
    from h have c: "CoordinateTransformation lib
               ((srss W from_srs)\<lparr>axis_mapping := OAMS_TRADITIONAL_GIS_ORDER\<rparr>)
               ((srss W to_srs)\<lparr>axis_mapping := OAMS_TRADITIONAL_GIS_ORDER\<rparr>) = Inr ct"
      and t: "Transform lib ct (geoms W geometry) = Inr moved" by simp_all
    show "fst (transform_by_srs lib W geometry from_srs to_srs) = Inr (n_geoms W)"
      by (rule transform_by_srs_success(1) [OF ne c t])
    show "geoms (snd (transform_by_srs lib W geometry from_srs to_srs)) (n_geoms W) = moved"
      by (rule transform_by_srs_success(2) [OF ne c t])
  next
    fix r
    assume h: "fst (transform_by_srs lib W geometry from_srs to_srs) = Inr r"
    from transform_by_srs_result [OF ne h]
    show "r = n_geoms W" by (rule conjunct1)
    from transform_by_srs_result [OF ne h]
    show "\<exists>ct. CoordinateTransformation lib
                  ((srss W from_srs)\<lparr>axis_mapping := OAMS_TRADITIONAL_GIS_ORDER\<rparr>)
                  ((srss W to_srs)\<lparr>axis_mapping := OAMS_TRADITIONAL_GIS_ORDER\<rparr>) = Inr ct
                \<and> Transform lib ct (geoms W geometry)
                    = Inr (geoms (snd (transform_by_srs lib W geometry from_srs to_srs)) r)"
      by (rule conjunct2)
  qed
qed

text \<open>
  A point and two spatial references with the authority's axis order: the result is the
  new object 1, the point and the references still hold what they held, and the first
  clone (object 2) has the traditional order.
\<close>

theorem transform_by_srs_leaves_inputs_witness:
  "fst (transform_by_srs example_lib
         (store_of [Geometry wkbPoint [[27, 53]] []]
            [\<lparr>crs = ''EPSG:4326'', axis_mapping = OAMS_AUTHORITY_COMPLIANT\<rparr>,
             \<lparr>crs = ''EPSG:3857'', axis_mapping = OAMS_AUTHORITY_COMPLIANT\<rparr>]) 0 0 1) = Inr 1
   \<and> geoms (snd (transform_by_srs example_lib
         (store_of [Geometry wkbPoint [[27, 53]] []]
            [\<lparr>crs = ''EPSG:4326'', axis_mapping = OAMS_AUTHORITY_COMPLIANT\<rparr>,
             \<lparr>crs = ''EPSG:3857'', axis_mapping = OAMS_AUTHORITY_COMPLIANT\<rparr>]) 0 0 1)) 1
       = Geometry wkbPoint [[53, 27]] []
   \<and> geoms (snd (transform_by_srs example_lib
         (store_of [Geometry wkbPoint [[27, 53]] []]
            [\<lparr>crs = ''EPSG:4326'', axis_mapping = OAMS_AUTHORITY_COMPLIANT\<rparr>,
             \<lparr>crs = ''EPSG:3857'', axis_mapping = OAMS_AUTHORITY_COMPLIANT\<rparr>]) 0 0 1)) 0
       = Geometry wkbPoint [[27, 53]] []
   \<and> srss (snd (transform_by_srs example_lib
         (store_of [Geometry wkbPoint [[27, 53]] []]
            [\<lparr>crs = ''EPSG:4326'', axis_mapping = OAMS_AUTHORITY_COMPLIANT\<rparr>,
             \<lparr>crs = ''EPSG:3857'', axis_mapping = OAMS_AUTHORITY_COMPLIANT\<rparr>]) 0 0 1)) 0
       = \<lparr>crs = ''EPSG:4326'', axis_mapping = OAMS_AUTHORITY_COMPLIANT\<rparr>
   \<and> srss (snd (transform_by_srs example_lib
         (store_of [Geometry wkbPoint [[27, 53]] []]
            [\<lparr>crs = ''EPSG:4326'', axis_mapping = OAMS_AUTHORITY_COMPLIANT\<rparr>,
             \<lparr>crs = ''EPSG:3857'', axis_mapping = OAMS_AUTHORITY_COMPLIANT\<rparr>]) 0 0 1)) 2
       = \<lparr>crs = ''EPSG:4326'', axis_mapping = OAMS_TRADITIONAL_GIS_ORDER\<rparr>"
proof -
  let ?W = "store_of [Geometry wkbPoint [[27, 53]] []]
            [\<lparr>crs = ''EPSG:4326'', axis_mapping = OAMS_AUTHORITY_COMPLIANT\<rparr>,
             \<lparr>crs = ''EPSG:3857'', axis_mapping = OAMS_AUTHORITY_COMPLIANT\<rparr>]"
  have n: "n_geoms ?W = 1" "n_srss ?W = 2"
    by (simp_all add: store_of_simps)
  have v: "geoms ?W 0 = Geometry wkbPoint [[27, 53]] []"
    "srss ?W 0 = \<lparr>crs = ''EPSG:4326'', axis_mapping = OAMS_AUTHORITY_COMPLIANT\<rparr>"
    "srss ?W 1 = \<lparr>crs = ''EPSG:3857'', axis_mapping = OAMS_AUTHORITY_COMPLIANT\<rparr>"
    by (simp_all add: store_of_simps)
  have h: "0 < n_geoms ?W" "0 < n_srss ?W" "1 < n_srss ?W"
    by (simp_all add: n)
  have c: "CoordinateTransformation example_lib
             ((srss ?W 0)\<lparr>axis_mapping := OAMS_TRADITIONAL_GIS_ORDER\<rparr>)
             ((srss ?W 1)\<lparr>axis_mapping := OAMS_TRADITIONAL_GIS_ORDER\<rparr>) = Inr ()"
    by (simp add: example_lib_def store_of_def)
  have t: "Transform example_lib () (geoms ?W 0) = Inr (Geometry wkbPoint [[53, 27]] [])"
    by (simp add: example_lib_def v)
  note T = transform_by_srs_leaves_inputs [OF h, of example_lib]
  note T1 = conjunct1 [OF T]
  note T2 = conjunct1 [OF conjunct2 [OF T]]
  note T3 = conjunct1 [OF conjunct2 [OF conjunct2 [OF T]]]
  note T5 = conjunct1 [OF conjunct2 [OF conjunct2 [OF conjunct2 [OF conjunct2 [OF T]]]]]
  have r1: "geoms (snd (transform_by_srs example_lib ?W 0 0 1)) 0 = geoms ?W 0"
    using T1 h(1) by simp
  have r2: "srss (snd (transform_by_srs example_lib ?W 0 0 1)) 0 = srss ?W 0"
    using T2 h(2) by simp
  have r3: "srss (snd (transform_by_srs example_lib ?W 0 0 1)) 2
              = (srss ?W 0)\<lparr>axis_mapping := OAMS_TRADITIONAL_GIS_ORDER\<rparr>"
    using T3 by (simp add: n)
  have r5: "fst (transform_by_srs example_lib ?W 0 0 1) = Inr 1
            \<and> geoms (snd (transform_by_srs example_lib ?W 0 0 1)) 1
               = Geometry wkbPoint [[53, 27]] []"
    using T5 [rule_format, of "()" "Geometry wkbPoint [[53, 27]] []"] c t by (simp add: n)
  show ?thesis
    using r1 r2 r3 r5 by (simp add: v)
qed




section \<open>to_geojson and the caller's geometry\<close>

lemma FlattenTo2D_idem: "FlattenTo2D (FlattenTo2D g) = FlattenTo2D g"
  by (induction g) simp

lemma store_geoms_update_id: "W\<lparr>geoms := f\<rparr> = W \<longleftrightarrow> f = geoms W"
  by (cases W) auto

text \<open>
  C9 as stated fails: with \<open>flatten\<close>, which is the default, \<open>to_geojson\<close> calls
  \<open>FlattenTo2D()\<close> on the caller's object. A point with a height loses it.
\<close>

theorem to_geojson_unchanged_counterexample:
  "geoms (store_of [Geometry wkbPoint [[1, 2, 3]] []] []) 0 = Geometry wkbPoint [[1, 2, 3]] []
   \<and> to_geojson (store_of [Geometry wkbPoint [[1, 2, 3]] []] []) 0 True None
     = (Inr (Mapping (Some ''Point'') (Some (Arr [Num 1, Num 2])) None),
        store_of [Geometry wkbPoint [[1, 2]] []] [])"
  by (simp add: to_geojson_def store_of_def Let_def lower_def lower_char_def serializer_getattr_def
      convert_point_def get_points_def GetPoints_def GeometryGeoJson_def py_round_n_def py_round_def
      fun_eq_iff)

text \<open>
  C9, amended. \<open>to_geojson\<close> leaves the store as it was exactly when \<open>flatten\<close> is
  off or the geometry is one that flattening does not change (it has no third
  coordinate anywhere). With \<open>flatten\<close> the caller's geometry holds its flattened
  value afterwards. No other geometry and no spatial reference is changed.
\<close>

theorem to_geojson_frame:
  "(snd (to_geojson W a flatten p) = W \<longleftrightarrow> (\<not> flatten \<or> FlattenTo2D (geoms W a) = geoms W a))
   \<and> (flatten \<longrightarrow> geoms (snd (to_geojson W a flatten p)) a = FlattenTo2D (geoms W a))
   \<and> (\<forall>b. b \<noteq> a \<longrightarrow> geoms (snd (to_geojson W a flatten p)) b = geoms W b)
   \<and> srss (snd (to_geojson W a flatten p)) = srss W"
  by (auto simp add: to_geojson_def Let_def store_geoms_update_id fun_upd_idem_iff)

theorem to_geojson_frame_witness:
  "snd (to_geojson (store_of [Geometry wkbPoint [[1, 2, 3]] []] []) 0 False None)
     = store_of [Geometry wkbPoint [[1, 2, 3]] []] []
   \<and> geoms (snd (to_geojson (store_of [Geometry wkbPoint [[1, 2, 3]] []] []) 0 True None)) 0
     = Geometry wkbPoint [[1, 2]] []"
  using to_geojson_frame [of "store_of [Geometry wkbPoint [[1, 2, 3]] []] []" 0 False None]
    to_geojson_frame [of "store_of [Geometry wkbPoint [[1, 2, 3]] []] []" 0 True None]
  by (simp add: store_of_def)

section \<open>make_valid: the caller's object and the result\<close>

text \<open>What \<open>CloseRings()\<close> leaves behind, and \<open>make_valid\<close> written out.\<close>

lemma gtype_CloseRings: "gtype (CloseRings g) = gtype g"
  by (simp add: CloseRings_def close_curve_def close_polygon_def split: wkb.splits)

lemma ring_closed_close_curve:
  "gtype r = wkbLinearRing \<Longrightarrow> ring_closed (close_curve r)"
  by (cases "gpoints r" rule: close_ring.cases)
     (simp_all add: close_curve_def ring_closed_def split: list.splits)

lemma gtype_close_curve: "gtype (close_curve r) = gtype r"
  by (simp add: close_curve_def)

lemma polygon_closed_close_polygon: "polygon_closed (close_polygon g)"
  by (simp add: polygon_closed_def close_polygon_def list_all_iff gtype_close_curve
      ring_closed_close_curve)

lemma CloseRings_polygon:
  "gtype g = wkbPolygon \<Longrightarrow> polygon_closed (CloseRings g)"
  by (simp add: CloseRings_def polygon_closed_close_polygon)

lemma gtype_close_polygon: "gtype (close_polygon g) = gtype g"
  by (simp add: close_polygon_def)

lemma CloseRings_multipolygon:
  "gtype g = wkbMultiPolygon \<Longrightarrow>
     list_all (\<lambda>m. gtype m \<noteq> wkbPolygon \<or> polygon_closed m) (gsubs (CloseRings g))"
  by (auto simp add: CloseRings_def list_all_iff polygon_closed_close_polygon gtype_close_polygon)

lemma make_valid_unfold:
  "make_valid lib W a =
     (case repaired lib (CloseRings (geoms W a)) of
        Inl e \<Rightarrow> (Inl e, W\<lparr>geoms := (geoms W)(a := CloseRings (geoms W a))\<rparr>)
      | Inr None \<Rightarrow> (Inr None, W\<lparr>geoms := (geoms W)(a := CloseRings (geoms W a))\<rparr>)
      | Inr (Some v) \<Rightarrow>
          (Inr (Some (n_geoms W)),
           W\<lparr>geoms := (geoms W)(a := CloseRings (geoms W a), n_geoms W := v),
             n_geoms := Suc (n_geoms W)\<rparr>))"
  by (simp add: make_valid_def alloc_geom_def Let_def split: sum.splits option.splits)

lemma make_valid_input:
  "a < n_geoms W \<Longrightarrow> geoms (snd (make_valid lib W a)) a = CloseRings (geoms W a)"
  by (simp add: make_valid_unfold split: sum.splits option.splits)

lemma make_valid_others:
  "b < n_geoms W \<Longrightarrow> b \<noteq> a \<Longrightarrow> geoms (snd (make_valid lib W a)) b = geoms W b"
  by (simp add: make_valid_unfold split: sum.splits option.splits)

lemma make_valid_result:
  assumes "fst (make_valid lib W a) = Inr (Some r)"
  shows "r = n_geoms W"
    and "repaired lib (CloseRings (geoms W a)) = Inr (Some (geoms (snd (make_valid lib W a)) r))"
  using assms by (simp_all add: make_valid_unfold split: sum.splits option.splits)

lemma make_valid_geojson_built:
  assumes "create True m = Inr g"
  shows "geoms (snd (make_valid_geojson lib W m p)) (n_geoms W) = CloseRings g"
    and "b < n_geoms W \<Longrightarrow> geoms (snd (make_valid_geojson lib W m p)) b = geoms W b"
  using assms
  by (simp_all add: make_valid_geojson_def make_valid_unfold alloc_geom_def Let_def
      split: sum.splits option.splits)

text \<open>
  C10. \<open>make_valid\<close> calls \<open>CloseRings()\<close> on the object it was given: after the
  call, whether the repair succeeded or not, the caller's geometry holds its value with
  the rings closed (every ring of a polygon, every ring of every polygon of a
  multipolygon), and no other geometry the caller held has changed. A repaired result is
  another object, holding the repair of the closed value. \<open>make_valid_geojson\<close> builds
  its geometry object from the mapping and passes it to \<open>make_valid\<close>, so it is that
  new object whose rings are closed where it stands.
\<close>

theorem make_valid_closes_rings_in_place:
  assumes "geometry < n_geoms W"
  shows "geoms (snd (make_valid lib W geometry)) geometry = CloseRings (geoms W geometry)
       \<and> (gtype (geoms W geometry) = wkbPolygon \<longrightarrow>
            polygon_closed (geoms (snd (make_valid lib W geometry)) geometry))
       \<and> (gtype (geoms W geometry) = wkbMultiPolygon \<longrightarrow>
            list_all (\<lambda>m. gtype m \<noteq> wkbPolygon \<or> polygon_closed m)
              (gsubs (geoms (snd (make_valid lib W geometry)) geometry)))
       \<and> (\<forall>b. b < n_geoms W \<and> b \<noteq> geometry \<longrightarrow>
            geoms (snd (make_valid lib W geometry)) b = geoms W b)
       \<and> (\<forall>r. fst (make_valid lib W geometry) = Inr (Some r) \<longrightarrow>
            r \<noteq> geometry
            \<and> repaired lib (CloseRings (geoms W geometry))
                = Inr (Some (geoms (snd (make_valid lib W geometry)) r)))
       \<and> (\<forall>m p g. create True m = Inr g \<longrightarrow>
            geoms (snd (make_valid_geojson lib W m p)) (n_geoms W) = CloseRings g
            \<and> (\<forall>b. b < n_geoms W \<longrightarrow>
                 geoms (snd (make_valid_geojson lib W m p)) b = geoms W b))"
proof (intro conjI allI impI)
  show in_place: "geoms (snd (make_valid lib W geometry)) geometry = CloseRings (geoms W geometry)"
    using assms by (rule make_valid_input)
  show "polygon_closed (geoms (snd (make_valid lib W geometry)) geometry)"
    if "gtype (geoms W geometry) = wkbPolygon"
    using that by (simp add: in_place CloseRings_polygon)
  show "list_all (\<lambda>m. gtype m \<noteq> wkbPolygon \<or> polygon_closed m)
              (gsubs (geoms (snd (make_valid lib W geometry)) geometry))"
    if "gtype (geoms W geometry) = wkbMultiPolygon"
    using that by (simp only: in_place CloseRings_multipolygon)
  show "geoms (snd (make_valid lib W geometry)) b = geoms W b"
    if "b < n_geoms W \<and> b \<noteq> geometry" for b
    using that by (simp add: make_valid_others)
  show "r \<noteq> geometry" if "fst (make_valid lib W geometry) = Inr (Some r)" for r
    using make_valid_result(1) [OF that] assms by simp
  show "repaired lib (CloseRings (geoms W geometry))
                = Inr (Some (geoms (snd (make_valid lib W geometry)) r))"
    if "fst (make_valid lib W geometry) = Inr (Some r)" for r
    using that by (rule make_valid_result(2))
  show "geoms (snd (make_valid_geojson lib W m p)) (n_geoms W) = CloseRings g"
    if "create True m = Inr g" for m p g
    using that by (rule make_valid_geojson_built(1))
  show "geoms (snd (make_valid_geojson lib W m p)) b = geoms W b"
    if "create True m = Inr g" and "b < n_geoms W" for m p g b
    using that by (rule make_valid_geojson_built(2))
qed

lemma example_repaired_open_triangle:
  "repaired example_lib
     (Geometry wkbPolygon [] [Geometry wkbLinearRing [[0, 0], [1, 0], [1, 1], [0, 0]] []])
   = Inr (Some (Geometry wkbPolygon [] [Geometry wkbLinearRing [[0, 0], [1, 0], [1, 1], [0, 0]] []]))"
  by (simp add: repaired_def example_lib_def two_squares_def spiked_square_def square_def
      GetGeometryName_def)

lemma CloseRings_open_triangle:
  "CloseRings (Geometry wkbPolygon [] [Geometry wkbLinearRing [[0, 0], [1, 0], [1, 1]] []])
   = Geometry wkbPolygon [] [Geometry wkbLinearRing [[0, 0], [1, 0], [1, 1], [0, 0]] []]"
  by (simp add: CloseRings_def close_polygon_def close_curve_def)

text \<open>
  A triangle given by three points: after the call the caller's polygon has the fourth
  point, and the result is the new object 1.
\<close>

theorem make_valid_closes_rings_in_place_witness:
  "geoms (snd (make_valid example_lib
       (store_of [Geometry wkbPolygon [] [Geometry wkbLinearRing [[0, 0], [1, 0], [1, 1]] []]] [])
       0)) 0
     = Geometry wkbPolygon [] [Geometry wkbLinearRing [[0, 0], [1, 0], [1, 1], [0, 0]] []]
   \<and> polygon_closed (geoms (snd (make_valid example_lib
       (store_of [Geometry wkbPolygon [] [Geometry wkbLinearRing [[0, 0], [1, 0], [1, 1]] []]] [])
       0)) 0)
   \<and> fst (make_valid example_lib
       (store_of [Geometry wkbPolygon [] [Geometry wkbLinearRing [[0, 0], [1, 0], [1, 1]] []]] [])
       0) = Inr (Some 1)"
proof -
  let ?g = "Geometry wkbPolygon [] [Geometry wkbLinearRing [[0, 0], [1, 0], [1, 1]] []]"
  let ?W = "store_of [?g] []"
  have h: "0 < n_geoms ?W" by (simp add: store_of_def)
  have v: "geoms ?W 0 = ?g" by (simp add: store_of_def)
  note T = make_valid_closes_rings_in_place [OF h, of example_lib]
  have a: "geoms (snd (make_valid example_lib ?W 0)) 0 = CloseRings ?g"
    using conjunct1 [OF T] by (simp only: v)
  have b: "polygon_closed (geoms (snd (make_valid example_lib ?W 0)) 0)"
    using conjunct1 [OF conjunct2 [OF T]] by (simp add: v)
  have c: "fst (make_valid example_lib ?W 0) = Inr (Some 1)"
    by (simp add: make_valid_unfold v CloseRings_open_triangle example_repaired_open_triangle
        store_of_def)
  show ?thesis
    using a b c by (simp only: CloseRings_open_triangle simp_thms)
qed

section \<open>make_valid: the type of the result\<close>

text \<open>
  The names the code compares are the names of the types. The loop over the members of
  a collection sees the polygonal members only, and a union of polygonal geometries
  that is polygonal keeps the accumulated geometry polygonal.
\<close>

lemma name_multipolygon: "GetGeometryName g = ''MULTIPOLYGON'' \<longleftrightarrow> gtype g = wkbMultiPolygon"
  by (cases "gtype g") (simp_all add: GetGeometryName_def)

lemma name_polygon: "GetGeometryName g = ''POLYGON'' \<longleftrightarrow> gtype g = wkbPolygon"
  by (cases "gtype g") (simp_all add: GetGeometryName_def)

lemma name_collection:
  "GetGeometryName g = ''GEOMETRYCOLLECTION'' \<longleftrightarrow> gtype g = wkbGeometryCollection"
  by (cases "gtype g") (simp_all add: GetGeometryName_def)

lemma union_members_step:
  "union_members lib u (s # rest) =
     (if \<not> polygonal s then union_members lib u rest
      else case u of
             None \<Rightarrow> Inl AttributeError
           | Some a \<Rightarrow>
               (case Union_geom lib a s of
                  Inl e \<Rightarrow> Inl e
                | Inr u' \<Rightarrow> union_members lib u' rest))"
  by (auto simp add: name_multipolygon name_polygon polygonal_def)

lemma union_members_filter:
  "union_members lib u subs = union_members lib u (filter polygonal subs)"
proof (induction subs arbitrary: u)
  case Nil
  show ?case by simp
next
  case (Cons s rest)
  show ?case
  proof (cases "polygonal s")
    case False
    then show ?thesis
      using Cons.IH [of u] by (simp add: union_members_step del: union_members.simps(2))
  next
    case True
    then show ?thesis
      using Cons.IH
      by (simp add: union_members_step del: union_members.simps(2) split: option.splits sum.splits)
  qed
qed

lemma union_members_None: "union_members lib None subs \<noteq> Inr (Some r)"
  by (induction subs) (simp_all add: union_members_step del: union_members.simps(2))

lemma union_members_polygonal:
  assumes U: "\<forall>u s w. polygonal u \<and> polygonal s \<and> Union_geom lib u s = Inr (Some w)
                \<longrightarrow> polygonal w"
  shows "union_members lib (Some u) subs = Inr (Some r) \<Longrightarrow> polygonal u \<Longrightarrow> polygonal r"
proof (induction subs arbitrary: u)
  case Nil
  then show ?case by simp
next
  case (Cons s rest)
  show ?case
  proof (cases "polygonal s")
    case False
    with Cons.prems have "union_members lib (Some u) rest = Inr (Some r)"
      by (simp add: union_members_step del: union_members.simps(2))
    then show ?thesis using Cons.prems(2) by (rule Cons.IH)
  next
    case True
    with Cons.prems(1) obtain u' where
      step: "Union_geom lib u s = Inr u'" and rest: "union_members lib u' rest = Inr (Some r)"
      by (auto simp add: union_members_step simp del: union_members.simps(2) split: sum.splits)
    from rest obtain w where w: "u' = Some w"
      using union_members_None [of lib rest r] by (cases u') auto
    from U step w True Cons.prems(2) have "polygonal w" by blast
    with rest w show ?thesis using Cons.IH by blast
  qed
qed


lemma repaired_unfold:
  "repaired lib g =
     (case MakeValid lib g of
        Inl e \<Rightarrow> Inl e
      | Inr None \<Rightarrow> Inl (RuntimeError (GetLastErrorMsg lib g))
      | Inr (Some v) \<Rightarrow>
          if gtype v = wkbGeometryCollection then
            (case union_members lib
                    (Some (new_geometry
                       (if gtype g = wkbMultiPolygon then wkbMultiPolygon else wkbPolygon)))
                    (filter polygonal (gsubs v)) of
               Inl e \<Rightarrow> Inl e
             | Inr u \<Rightarrow>
                 if gtype g = wkbMultiPolygon then
                   (case u of
                      None \<Rightarrow> Inl AttributeError
                    | Some w \<Rightarrow>
                        if gtype w = wkbPolygon
                        then Inr (Some (Geometry wkbMultiPolygon [] [w]))
                        else Inr (Some w))
                 else Inr u)
          else Inr (Some v))"
  by (simp add: repaired_def Let_def name_collection name_multipolygon name_polygon
      union_members_filter [symmetric] AddGeometry_def new_geometry_def
      split: sum.splits option.splits)

lemma repaired_direct:
  assumes "repaired lib g = Inr (Some r)" and "MakeValid lib g = Inr (Some v)"
    and "gtype v \<noteq> wkbGeometryCollection"
  shows "r = v"
  using assms by (simp add: repaired_unfold)

lemma repaired_collection:
  assumes "repaired lib g = Inr (Some r)" and "MakeValid lib g = Inr (Some v)"
    and "gtype v = wkbGeometryCollection"
  shows "\<exists>u. union_members lib
                (Some (new_geometry
                   (if gtype g = wkbMultiPolygon then wkbMultiPolygon else wkbPolygon)))
                (filter polygonal (gsubs v)) = Inr (Some u)
            \<and> r = (if gtype g = wkbMultiPolygon \<and> gtype u = wkbPolygon
                   then Geometry wkbMultiPolygon [] [u] else u)"
  using assms
  by (auto simp add: repaired_unfold split: sum.splits option.splits if_splits)

lemma repaired_valid:
  assumes "repaired lib g = Inr (Some r)"
  shows "\<exists>v. MakeValid lib g = Inr (Some v)"
  using assms by (simp add: repaired_unfold split: sum.splits option.splits)

lemma repaired_collection_type:
  assumes U: "\<forall>u s w. polygonal u \<and> polygonal s \<and> Union_geom lib u s = Inr (Some w)
                \<longrightarrow> polygonal w"
    and "repaired lib g = Inr (Some r)" and "MakeValid lib g = Inr (Some v)"
    and "gtype v = wkbGeometryCollection"
  shows "polygonal r" and "gtype g = wkbMultiPolygon \<Longrightarrow> gtype r = wkbMultiPolygon"
proof -
  let ?u0 = "new_geometry (if gtype g = wkbMultiPolygon then wkbMultiPolygon else wkbPolygon)"
  from repaired_collection [OF assms(2-4)] obtain u where
    u: "union_members lib (Some ?u0) (filter polygonal (gsubs v)) = Inr (Some u)"
    and r: "r = (if gtype g = wkbMultiPolygon \<and> gtype u = wkbPolygon
                   then Geometry wkbMultiPolygon [] [u] else u)"
    by blast
  have "polygonal ?u0" by (simp add: polygonal_def new_geometry_def)
  with union_members_polygonal [OF U u] have pu: "polygonal u" by simp
  with r show "polygonal r" by (simp add: polygonal_def)
  show "gtype r = wkbMultiPolygon" if "gtype g = wkbMultiPolygon"
    using that r pu by (auto simp add: polygonal_def)
qed

text \<open>
  C3 as stated fails in its last part: the cast back to a multipolygon is made only on
  the path through a collection. When the repair of a multipolygon is a single polygon,
  as the repair of two squares that share an edge is with the stand-in bindings, line
  219 returns that polygon.
\<close>

lemma CloseRings_two_squares: "CloseRings two_squares = two_squares"
  by (simp add: CloseRings_def two_squares_def square_def close_polygon_def close_curve_def)

theorem make_valid_multipolygon_counterexample:
  "gtype (geoms (store_of [two_squares] []) 0) = wkbMultiPolygon
   \<and> fst (make_valid example_lib (store_of [two_squares] []) 0) = Inr (Some 1)
   \<and> geoms (snd (make_valid example_lib (store_of [two_squares] []) 0)) 1 = rectangle
   \<and> gtype rectangle = wkbPolygon"
proof -
  have r: "repaired example_lib two_squares = Inr (Some rectangle)"
    by (simp add: repaired_unfold example_lib_def rectangle_def)
  have v: "geoms (store_of [two_squares] []) 0 = two_squares"
    "n_geoms (store_of [two_squares] []) = 1"
    by (simp_all add: store_of_def)
  have t: "gtype two_squares = wkbMultiPolygon" "gtype rectangle = wkbPolygon"
    by (simp_all add: two_squares_def rectangle_def)
  show ?thesis
    by (simp add: make_valid_unfold v CloseRings_two_squares r t)
qed

text \<open>
  C3, amended. Let a repair succeed, with bindings whose union of two polygonal
  geometries is polygonal. If the bindings' repair of the (ring-closed) input is a
  collection, the result is the union of its polygon and multipolygon members alone,
  started from an empty geometry, and wrapped into a one-element multipolygon when the
  input is a multipolygon and the union a polygon: it is a polygon or multipolygon, and
  a multipolygon for a multipolygon input. If the bindings' repair is no collection, it
  is the result as it is. Either way the result is no collection.
\<close>

theorem make_valid_result_type:
  assumes ok: "fst (make_valid lib W geometry) = Inr (Some r)"
    and U: "\<forall>u s w. polygonal u \<and> polygonal s \<and> Union_geom lib u s = Inr (Some w)
                \<longrightarrow> polygonal w"
  shows "\<exists>v. MakeValid lib (CloseRings (geoms W geometry)) = Inr (Some v)
     \<and> (if gtype v = wkbGeometryCollection
        then polygonal (geoms (snd (make_valid lib W geometry)) r)
           \<and> (gtype (geoms W geometry) = wkbMultiPolygon \<longrightarrow>
                gtype (geoms (snd (make_valid lib W geometry)) r) = wkbMultiPolygon)
           \<and> (\<exists>u. union_members lib
                     (Some (new_geometry
                        (if gtype (geoms W geometry) = wkbMultiPolygon
                         then wkbMultiPolygon else wkbPolygon)))
                     (filter polygonal (gsubs v)) = Inr (Some u)
                \<and> geoms (snd (make_valid lib W geometry)) r
                    = (if gtype (geoms W geometry) = wkbMultiPolygon \<and> gtype u = wkbPolygon
                       then Geometry wkbMultiPolygon [] [u] else u))
        else geoms (snd (make_valid lib W geometry)) r = v)
     \<and> gtype (geoms (snd (make_valid lib W geometry)) r) \<noteq> wkbGeometryCollection"
proof -
  let ?g = "CloseRings (geoms W geometry)"
  let ?R = "geoms (snd (make_valid lib W geometry)) r"
  have rep: "repaired lib ?g = Inr (Some ?R)"
    using ok by (rule make_valid_result(2))
  then obtain v where v: "MakeValid lib ?g = Inr (Some v)"
    using repaired_valid by blast
  have t: "gtype ?g = gtype (geoms W geometry)" by (rule gtype_CloseRings)
  show ?thesis
  proof (cases "gtype v = wkbGeometryCollection")
    case True
    have p: "polygonal ?R"
      by (rule repaired_collection_type(1) [OF U rep v True])
    have m: "gtype (geoms W geometry) = wkbMultiPolygon \<longrightarrow> gtype ?R = wkbMultiPolygon"
      using repaired_collection_type(2) [OF U rep v True] t by simp
    have u: "\<exists>u. union_members lib
                     (Some (new_geometry
                        (if gtype (geoms W geometry) = wkbMultiPolygon
                         then wkbMultiPolygon else wkbPolygon)))
                     (filter polygonal (gsubs v)) = Inr (Some u)
                \<and> ?R = (if gtype (geoms W geometry) = wkbMultiPolygon \<and> gtype u = wkbPolygon
                       then Geometry wkbMultiPolygon [] [u] else u)"
      using repaired_collection [OF rep v True] by (simp only: t)
    have n: "gtype ?R \<noteq> wkbGeometryCollection"
      using p by (auto simp add: polygonal_def)
    show ?thesis
      using v True p m u n by (intro exI [of _ v]) (simp only: if_True simp_thms)
  next
    case False
    have e: "?R = v" by (rule repaired_direct [OF rep v False])
    show ?thesis
      using v False e by (intro exI [of _ v]) simp
  qed
qed

lemma CloseRings_spiked: 
  "CloseRings (Geometry wkbMultiPolygon [] [spiked_square])
     = Geometry wkbMultiPolygon [] [spiked_square]"
  by (simp add: CloseRings_def spiked_square_def close_polygon_def close_curve_def)

lemma example_lib_union_polygonal:
  "\<forall>u s w. polygonal u \<and> polygonal s \<and> Union_geom example_lib u s = Inr (Some w)
      \<longrightarrow> polygonal w"
  by (auto simp add: example_lib_def polygonal_def split: if_splits)

lemma example_repaired_spiked:
  "repaired example_lib (Geometry wkbMultiPolygon [] [spiked_square])
     = Inr (Some (Geometry wkbMultiPolygon [] [square 0 0]))"
  by (simp add: repaired_unfold example_lib_def two_squares_def polygonal_def spike_def
      new_geometry_def square_def spiked_square_def name_polygon name_multipolygon)

text \<open>
  A multipolygon of one square with a spike: the bindings give a collection of the
  square and the spike's line, the line is dropped, and the square comes back as a
  multipolygon of one polygon.
\<close>

theorem make_valid_result_type_witness:
  "fst (make_valid example_lib (store_of [Geometry wkbMultiPolygon [] [spiked_square]] []) 0)
     = Inr (Some 1)
   \<and> MakeValid example_lib (Geometry wkbMultiPolygon [] [spiked_square])
     = Inr (Some (Geometry wkbGeometryCollection [] [square 0 0, spike]))
   \<and> geoms (snd (make_valid example_lib
        (store_of [Geometry wkbMultiPolygon [] [spiked_square]] []) 0)) 1
     = Geometry wkbMultiPolygon [] [square 0 0]
   \<and> gtype (geoms (snd (make_valid example_lib
        (store_of [Geometry wkbMultiPolygon [] [spiked_square]] []) 0)) 1)
     \<noteq> wkbGeometryCollection"
proof -
  let ?g = "Geometry wkbMultiPolygon [] [spiked_square]"
  let ?W = "store_of [?g] []"
  have v: "geoms ?W 0 = ?g" "n_geoms ?W = 1"
    by (simp_all add: store_of_def)
  have ok: "fst (make_valid example_lib ?W 0) = Inr (Some 1)"
    by (simp add: make_valid_unfold v CloseRings_spiked example_repaired_spiked)
  have mv: "MakeValid example_lib ?g
     = Inr (Some (Geometry wkbGeometryCollection [] [square 0 0, spike]))"
    by (simp add: example_lib_def two_squares_def)
  have val: "geoms (snd (make_valid example_lib ?W 0)) 1 = Geometry wkbMultiPolygon [] [square 0 0]"
    by (simp add: make_valid_unfold v CloseRings_spiked example_repaired_spiked)
  from make_valid_result_type [OF ok example_lib_union_polygonal]
  have "gtype (geoms (snd (make_valid example_lib ?W 0)) 1) \<noteq> wkbGeometryCollection"
    by blast
  with ok mv val show ?thesis by simp
qed

section \<open>Compositing: the last pixel that is not nodata wins\<close>

lemma contribution_None_iff:
  "contribution d b p = None \<longleftrightarrow> pixel d b p = None \<or> pixel d b p = nodata d b"
  by (auto simp add: contribution_def split: option.splits)

lemma contribution_Some_iff:
  "contribution d b p = Some v \<longleftrightarrow> pixel d b p = Some v \<and> nodata d b \<noteq> Some v"
  by (auto simp add: contribution_def split: option.splits)

lemma composite_last:
  "composite fill ds b p = last (fill # List.map_filter (\<lambda>d. contribution d b p) ds)"
proof (induction ds arbitrary: fill)
  case Nil
  show ?case by simp
next
  case (Cons d ds)
  show ?case
    by (cases "contribution d b p") (simp_all add: Cons.IH)
qed

lemma composite_append:
  "composite fill (xs @ ys) b p = composite (composite fill xs b p) ys b p"
  by (induction xs arbitrary: fill) simp_all

lemma composite_all_nodata:
  "\<forall>d \<in> set ds. contribution d b p = None \<Longrightarrow> composite fill ds b p = fill"
  by (induction ds) simp_all

lemma composite_keeps_valid:
  assumes "contribution d b p = Some v"
    and "\<forall>d' \<in> set later. contribution d' b p = None"
  shows "composite fill (earlier @ d # later) b p = v"
  using assms by (simp add: composite_append composite_all_nodata)

text \<open>
  C2, on the compositing modelled from the spec. For every cell and band the merged
  value is the last contribution in compositing order that lies inside its dataset's
  footprint and is not that dataset's nodata value for the band, or the fill value when
  there is none. In particular a valid pixel of one input survives every later input
  that is nodata, or absent, at that cell.
\<close>

theorem last_non_nodata_wins:
  "composite fill ds b p = last (fill # List.map_filter (\<lambda>d. contribution d b p) ds)
   \<and> (\<forall>earlier d later v.
         ds = earlier @ d # later
         \<and> pixel d b p = Some v \<and> nodata d b \<noteq> Some v
         \<and> (\<forall>d' \<in> set later. pixel d' b p = None \<or> pixel d' b p = nodata d' b)
         \<longrightarrow> composite fill ds b p = v)"
proof (intro conjI allI impI)
  show "composite fill ds b p = last (fill # List.map_filter (\<lambda>d. contribution d b p) ds)"
    by (rule composite_last)
next
  fix earlier d later v
  assume h: "ds = earlier @ d # later
         \<and> pixel d b p = Some v \<and> nodata d b \<noteq> Some v
         \<and> (\<forall>d' \<in> set later. pixel d' b p = None \<or> pixel d' b p = nodata d' b)"
  then have c: "contribution d b p = Some v"
    by (simp add: contribution_Some_iff)
  from h have n: "\<forall>d' \<in> set later. contribution d' b p = None"
    by (simp add: contribution_None_iff)
  from h composite_keeps_valid [OF c n] show "composite fill ds b p = v" by simp
qed

text \<open>
  Two framed rasters that overlap, nodata 255: at the cell (2, 1) the first has the
  valid value 1 and the second, composited later, has its nodata border. The merged
  value is 1.
\<close>

theorem last_non_nodata_wins_witness:
  "composite 255 [dataset_A, dataset_B] 0 (2, 1) = 1
   \<and> pixel dataset_A 0 (2, 1) = Some 1
   \<and> pixel dataset_B 0 (2, 1) = Some 255
   \<and> nodata dataset_B 0 = Some 255"
proof -
  have a: "pixel dataset_A 0 (2, 1) = Some 1" "nodata dataset_A 0 \<noteq> Some 1"
    by (simp_all add: dataset_A_def framed_def)
  have b: "pixel dataset_B 0 (2, 1) = Some 255" "nodata dataset_B 0 = Some 255"
    by (simp_all add: dataset_B_def framed_def)
  have l: "\<forall>d' \<in> set [dataset_B]. pixel d' 0 (2, 1) = None \<or> pixel d' 0 (2, 1) = nodata d' 0"
    using b by simp
  note T = conjunct2 [OF last_non_nodata_wins [of 255 "[dataset_A, dataset_B]" 0 "(2, 1)"]]
  have "composite 255 [dataset_A, dataset_B] 0 (2, 1) = 1"
    using T [rule_format, of "[]" dataset_A "[dataset_B]" 1] a l by simp
  with a b show ?thesis by simp
qed

text \<open>Elsewhere in the same example: the later valid pixel wins, and a cell with no valid pixel keeps the fill.\<close>

lemma composite_example:
  "composite 255 [dataset_A, dataset_B] 0 (3, 1) = 3"
  "composite 255 [dataset_A, dataset_B] 0 (0, 0) = 255"
  "composite 255 [dataset_A, dataset_B] 0 (4, 2) = 3"
  by (simp_all add: contribution_def dataset_A_def dataset_B_def framed_def)

section \<open>Round trip: what the builder makes and what the serializer reads\<close>































end
